theory Spec2Isabelle
  imports Main "HOL-Library.Sublist" "HOL-Library.AList"
begin

section \<open>The deployment directory as a flat file system\<close>

text \<open>
  Everything \<^verbatim>\<open>DeploymentManager\<close> touches lives under its \<^verbatim>\<open>base_path\<close>, in the
  sub-directories \<^verbatim>\<open>apps\<close>, \<^verbatim>\<open>static\<close> and \<^verbatim>\<open>backups\<close>. A path is the list of its
  components below \<^verbatim>\<open>base_path\<close> (the empty list is \<^verbatim>\<open>base_path\<close> itself); the file
  system maps a path to what is stored there, a regular file or a directory. An
  application id and every component of a key of the \<^verbatim>\<open>files\<close> mapping is one plain
  path component (no separator, not \<^verbatim>\<open>.\<close> or \<^verbatim>\<open>..\<close>): \<^verbatim>\<open>os.path.join\<close> is list append,
  and a key of the \<^verbatim>\<open>files\<close> mapping is the list of its components. There are no
  symbolic links. The library calls are modelled on every such map, also on one where
  an entry has no parent directory; the theorems say where they need a directory.

  A regular file holds either text written with \<^verbatim>\<open>f.write\<close> from the \<^verbatim>\<open>files\<close> mapping
  or a deployment record written with \<^verbatim>\<open>json.dump\<close>. Serialisation is not modelled:
  \<^verbatim>\<open>json.load\<close> gives back the record that \<^verbatim>\<open>json.dump\<close> wrote, and a text file is
  taken not to parse as a record (none can stand at a record's path: the record is
  written there after the files).
\<close>

type_synonym path = "string list"

record deployment =
  d_app_id :: string
  d_app_name :: string
  d_app_type :: string
  d_app_dir :: path
  d_deployed_at :: string
  d_status :: string
  d_url :: string
  d_subdomain :: string
  d_files :: "path list"
  d_success :: "bool option"
  d_build_output :: "string option"
  d_static_dir :: "path option"
  d_updated_at :: "string option"
  d_backup_created :: "path option"
  d_domain :: "string option"

datatype content = Text string | Meta deployment

datatype entry = FileE content | DirE

type_synonym filesystem = "path \<Rightarrow> entry option"

text \<open>The exceptions of the Python library calls, and the failures the managers return
  in their \<^verbatim>\<open>{'success': False, 'error': ...}\<close> dictionaries.\<close>

datatype exn =
    FileExistsError path
  | FileNotFoundError path
  | NotADirectoryError path
  | IsADirectoryError path
  | OtherError string

datatype failure =
    DeploymentNotFound
  | InstallFailed string
  | BuildFailed string
  | BuildTimedOut
  | BuildDirectoryNotFound
  | SubdomainTaken
  | Raised exn

subsection \<open>Library calls\<close>

definition exists_path :: "path \<Rightarrow> filesystem \<Rightarrow> bool" where
  "exists_path p fs = (fs p \<noteq> None)"

fun is_file :: "entry option \<Rightarrow> bool" where
  "is_file (Some (FileE c)) = True"
| "is_file x = False"

text \<open>\<^verbatim>\<open>shutil.rmtree(p)\<close>: removes the directory and all below it; raises on a path
  that is not a directory.\<close>

definition rmtree :: "path \<Rightarrow> filesystem \<Rightarrow> exn + filesystem" where
  "rmtree p fs =
     (case fs p of
        None \<Rightarrow> Inl (FileNotFoundError p)
      | Some (FileE c) \<Rightarrow> Inl (NotADirectoryError p)
      | Some DirE \<Rightarrow> Inr (\<lambda>q. if prefix p q then None else fs q))"

text \<open>The guarded removal \<^verbatim>\<open>if os.path.exists(p): shutil.rmtree(p)\<close>, which the module
  uses before every fresh write of a directory.\<close>

definition remove_existing :: "path \<Rightarrow> filesystem \<Rightarrow> exn + filesystem" where
  "remove_existing p fs = (if exists_path p fs then rmtree p fs else Inr fs)"

text \<open>\<^verbatim>\<open>os.makedirs(p, exist_ok=True)\<close>: the directory and its missing ancestors; raises
  when the path itself or one of its ancestors is a regular file.\<close>

definition makedirs :: "path \<Rightarrow> filesystem \<Rightarrow> exn + filesystem" where
  "makedirs p fs =
     (if is_file (fs p) then Inl (FileExistsError p)
      else if list_ex (\<lambda>q. is_file (fs q)) (prefixes p) then Inl (NotADirectoryError p)
      else Inr (\<lambda>q. if prefix q p then Some DirE else fs q))"

text \<open>\<^verbatim>\<open>open(p, 'w')\<close> and \<^verbatim>\<open>write\<close>: creates or truncates a regular file in an
  existing directory.\<close>

definition write_file :: "path \<Rightarrow> content \<Rightarrow> filesystem \<Rightarrow> exn + filesystem" where
  "write_file p c fs =
     (case fs p of
        Some DirE \<Rightarrow> Inl (IsADirectoryError p)
      | _ \<Rightarrow>
        (case fs (butlast p) of
           None \<Rightarrow> Inl (FileNotFoundError p)
         | Some (FileE c') \<Rightarrow> Inl (NotADirectoryError p)
         | Some DirE \<Rightarrow> Inr (fs(p \<mapsto> FileE c))))"

text \<open>\<^verbatim>\<open>shutil.copytree(src, dst)\<close>: \<^verbatim>\<open>src\<close> must be a directory and \<^verbatim>\<open>dst\<close> must not
  exist; \<^verbatim>\<open>dst\<close> and its missing ancestors are created and the tree below \<^verbatim>\<open>src\<close> is
  copied below \<^verbatim>\<open>dst\<close>.\<close>

definition copytree :: "path \<Rightarrow> path \<Rightarrow> filesystem \<Rightarrow> exn + filesystem" where
  "copytree src dst fs =
     (case fs src of
        None \<Rightarrow> Inl (FileNotFoundError src)
      | Some (FileE c) \<Rightarrow> Inl (NotADirectoryError src)
      | Some DirE \<Rightarrow>
          if fs dst \<noteq> None then Inl (FileExistsError dst)
          else if list_ex (\<lambda>q. is_file (fs q)) (prefixes dst) then Inl (NotADirectoryError dst)
          else Inr (\<lambda>q. if prefix dst q then fs (src @ drop (length dst) q)
                         else if prefix q dst then Some DirE
                         else fs q))"

text \<open>\<^verbatim>\<open>subprocess.run(argv, cwd=..., timeout=...)\<close>: the external tool is a parameter of
  the model. It may change the file system in any way, and it either completes with a
  return code, standard output and standard error, runs into the timeout, or cannot be
  started.\<close>

record command =
  argv :: "string list"
  cwd :: path
  timeout :: nat

datatype outcome = Completed int string string | TimeoutExpired | Failed exn

type_synonym runner = "command \<Rightarrow> filesystem \<Rightarrow> outcome \<times> filesystem"

section \<open>DeploymentManager\<close>

record app_data =
  ad_app_id :: "string option"
  ad_app_name :: "string option"
  ad_app_type :: "string option"
  ad_files :: "(path \<times> string) list option"

definition app_dir_of :: "string \<Rightarrow> path" where
  "app_dir_of app_id = [''apps'', app_id]"

definition static_dir_of :: "string \<Rightarrow> path" where
  "static_dir_of app_id = [''static'', app_id]"

definition metadata_path :: "string \<Rightarrow> path" where
  "metadata_path app_id = [''apps'', app_id, ''deployment.json'']"

text \<open>The loop of \<^verbatim>\<open>deploy_app\<close> over \<^verbatim>\<open>files.items()\<close>, in the mapping's order. An
  exception leaves what was written so far.\<close>

fun write_files :: "path \<Rightarrow> (path \<times> string) list \<Rightarrow> filesystem \<Rightarrow> exn option \<times> filesystem" where
  "write_files app_dir [] fs = (None, fs)"
| "write_files app_dir ((file_path, file_content) # rest) fs =
     (case makedirs (app_dir @ butlast file_path) fs of
        Inl e \<Rightarrow> (Some e, fs)
      | Inr fs1 \<Rightarrow>
        (case write_file (app_dir @ file_path) (Text file_content) fs1 of
           Inl e \<Rightarrow> (Some e, fs1)
         | Inr fs2 \<Rightarrow> write_files app_dir rest fs2))"

definition save_deployment_metadata :: "string \<Rightarrow> deployment \<Rightarrow> filesystem \<Rightarrow> exn + filesystem" where
  "save_deployment_metadata app_id metadata fs = write_file (metadata_path app_id) (Meta metadata) fs"

text \<open>\<^verbatim>\<open>get_deployment_info\<close> reads back what \<^verbatim>\<open>_save_deployment_metadata\<close> wrote. A
  missing path, a directory and a file that is no JSON all give \<^verbatim>\<open>None\<close> in the code
  (the last two by its \<^verbatim>\<open>except\<close> branch). The text of an application file at that
  path is not parsed here: the definition is for directories in which no application
  file holding JSON stands at \<^verbatim>\<open>deployment.json\<close>. Such a file is overwritten by the
  record as soon as the deploy that wrote it saves its record.\<close>

definition get_deployment_info :: "string \<Rightarrow> filesystem \<Rightarrow> deployment option" where
  "get_deployment_info app_id fs =
     (case fs (metadata_path app_id) of
        Some (FileE (Meta r)) \<Rightarrow> Some r
      | _ \<Rightarrow> None)"

text \<open>The last part of \<^verbatim>\<open>_build_react_app\<close>, from the comment
  \<^verbatim>\<open># Copy build files to static directory\<close> on; \<^verbatim>\<open>out\<close> is the standard output of the
  build step.\<close>

definition copy_build_output :: "path \<Rightarrow> string \<Rightarrow> string \<Rightarrow> filesystem \<Rightarrow> (failure + string \<times> path) \<times> filesystem" where
  "copy_build_output app_dir app_id out fs =
     (let build_dir = app_dir @ [''build''];
          static_dir = static_dir_of app_id
      in case remove_existing static_dir fs of
           Inl e \<Rightarrow> (Inl (Raised e), fs)
         | Inr fs1 \<Rightarrow>
             if exists_path build_dir fs1 then
               (case copytree build_dir static_dir fs1 of
                  Inl e \<Rightarrow> (Inl (Raised e), fs1)
                | Inr fs2 \<Rightarrow> (Inr (out, static_dir), fs2))
             else
               (let dist_dir = app_dir @ [''dist'']
                in if exists_path dist_dir fs1 then
                     (case copytree dist_dir static_dir fs1 of
                        Inl e \<Rightarrow> (Inl (Raised e), fs1)
                      | Inr fs2 \<Rightarrow> (Inr (out, static_dir), fs2))
                   else (Inl BuildDirectoryNotFound, fs1)))"

definition install_command :: "path \<Rightarrow> command" where
  "install_command app_dir = \<lparr>argv = [''npm'', ''install''], cwd = app_dir, timeout = 300\<rparr>"

definition build_command :: "path \<Rightarrow> command" where
  "build_command app_dir = \<lparr>argv = [''npm'', ''run'', ''build''], cwd = app_dir, timeout = 300\<rparr>"

definition build_react_app :: "runner \<Rightarrow> path \<Rightarrow> string \<Rightarrow> filesystem \<Rightarrow> (failure + string \<times> path) \<times> filesystem" where
  "build_react_app run app_dir app_id fs =
     (case run (install_command app_dir) fs of
        (TimeoutExpired, fs1) \<Rightarrow> (Inl BuildTimedOut, fs1)
      | (Failed e, fs1) \<Rightarrow> (Inl (Raised e), fs1)
      | (Completed rc out err, fs1) \<Rightarrow>
          if rc \<noteq> 0 then (Inl (InstallFailed err), fs1)
          else
            (case run (build_command app_dir) fs1 of
               (TimeoutExpired, fs2) \<Rightarrow> (Inl BuildTimedOut, fs2)
             | (Failed e, fs2) \<Rightarrow> (Inl (Raised e), fs2)
             | (Completed rc2 out2 err2, fs2) \<Rightarrow>
                 if rc2 \<noteq> 0 then (Inl (BuildFailed err2), fs2)
                 else copy_build_output app_dir app_id out2 fs2))"

definition deployment_config :: "string \<Rightarrow> string \<Rightarrow> string \<Rightarrow> string \<Rightarrow> (path \<times> string) list \<Rightarrow> deployment" where
  "deployment_config app_id app_name app_type now files =
     \<lparr>d_app_id = app_id, d_app_name = app_name, d_app_type = app_type,
      d_app_dir = app_dir_of app_id, d_deployed_at = now, d_status = ''deployed'',
      d_url = ''https://'' @ app_id @ ''.sebaircode.com'', d_subdomain = app_id,
      d_files = map fst files,
      d_success = None, d_build_output = None, d_static_dir = None,
      d_updated_at = None, d_backup_created = None, d_domain = None\<rparr>"

text \<open>\<^verbatim>\<open>deploy_app\<close>: \<^verbatim>\<open>uuid\<close> is the value of \<^verbatim>\<open>str(uuid.uuid4())\<close> and \<^verbatim>\<open>now\<close> that of
  \<^verbatim>\<open>datetime.now().isoformat()\<close>. Its first part, from the comment
  \<^verbatim>\<open># Create app directory\<close> to the end of the loop over the files, is
  \<open>write_source_tree\<close>; the four defaults at its head are the \<open>resolve\<close> functions.\<close>

definition write_source_tree :: "string \<Rightarrow> (path \<times> string) list \<Rightarrow> filesystem \<Rightarrow> exn option \<times> filesystem" where
  "write_source_tree app_id files fs =
     (let app_dir = app_dir_of app_id
      in case remove_existing app_dir fs of
           Inl e \<Rightarrow> (Some e, fs)
         | Inr fs1 \<Rightarrow>
           (case makedirs app_dir fs1 of
              Inl e \<Rightarrow> (Some e, fs1)
            | Inr fs2 \<Rightarrow> write_files app_dir files fs2))"

text \<open>The branch of \<^verbatim>\<open>deploy_app\<close> for the types \<^verbatim>\<open>static\<close> and \<^verbatim>\<open>simple_website\<close>,
  under the comment \<^verbatim>\<open># For static apps, copy to static directory for serving\<close>.\<close>

definition copy_to_static :: "string \<Rightarrow> filesystem \<Rightarrow> exn option \<times> filesystem" where
  "copy_to_static app_id fs =
     (let static_dir = static_dir_of app_id
      in case remove_existing static_dir fs of
           Inl e \<Rightarrow> (Some e, fs)
         | Inr fs1 \<Rightarrow>
           (case copytree (app_dir_of app_id) static_dir fs1 of
              Inl e \<Rightarrow> (Some e, fs1)
            | Inr fs2 \<Rightarrow> (None, fs2)))"

text \<open>\<^verbatim>\<open>app_data.get('app_id') or str(uuid.uuid4())\<close>: a missing or empty id is replaced.\<close>

definition resolve_app_id :: "string \<Rightarrow> app_data \<Rightarrow> string" where
  "resolve_app_id uuid d = (case ad_app_id d of None \<Rightarrow> uuid | Some a \<Rightarrow> if a = [] then uuid else a)"

definition resolve_app_name :: "string \<Rightarrow> app_data \<Rightarrow> string" where
  "resolve_app_name app_id d = (case ad_app_name d of None \<Rightarrow> ''app-'' @ app_id | Some n \<Rightarrow> n)"

definition resolve_app_type :: "app_data \<Rightarrow> string" where
  "resolve_app_type d = (case ad_app_type d of None \<Rightarrow> ''static'' | Some t \<Rightarrow> t)"

definition resolve_files :: "app_data \<Rightarrow> (path \<times> string) list" where
  "resolve_files d = (case ad_files d of None \<Rightarrow> [] | Some f \<Rightarrow> f)"

text \<open>The record \<^verbatim>\<open>deploy_app\<close> builds and saves for a request.\<close>

definition config_of :: "string \<Rightarrow> string \<Rightarrow> app_data \<Rightarrow> deployment" where
  "config_of uuid now d =
     deployment_config (resolve_app_id uuid d) (resolve_app_name (resolve_app_id uuid d) d)
       (resolve_app_type d) now (resolve_files d)"

definition deploy_app :: "runner \<Rightarrow> string \<Rightarrow> string \<Rightarrow> app_data \<Rightarrow> filesystem \<Rightarrow> (failure + deployment) \<times> filesystem" where
  "deploy_app run uuid now d fs =
     (let app_id = resolve_app_id uuid d;
          app_type = resolve_app_type d;
          files = resolve_files d;
          app_dir = app_dir_of app_id
      in case write_source_tree app_id files fs of
           (Some e, fs1) \<Rightarrow> (Inl (Raised e), fs1)
         | (None, fs1) \<Rightarrow>
           (let config = config_of uuid now d
            in case save_deployment_metadata app_id config fs1 of
                 Inl e \<Rightarrow> (Inl (Raised e), fs1)
               | Inr fs2 \<Rightarrow>
                   if app_type = ''static'' \<or> app_type = ''simple_website'' then
                     (case copy_to_static app_id fs2 of
                        (Some e, fs3) \<Rightarrow> (Inl (Raised e), fs3)
                      | (None, fs3) \<Rightarrow> (Inr config, fs3))
                   else if app_type = ''react_app'' then
                     (case build_react_app run app_dir app_id fs2 of
                        (Inl f, fs3) \<Rightarrow> (Inl f, fs3)
                      | (Inr (out, static_dir), fs3) \<Rightarrow>
                          (Inr (config\<lparr>d_success := Some True, d_build_output := Some out,
                                        d_static_dir := Some static_dir\<rparr>), fs3))
                   else (Inr config, fs2)))"

definition delete_deployment :: "string \<Rightarrow> filesystem \<Rightarrow> (failure + unit) \<times> filesystem" where
  "delete_deployment app_id fs =
     (let app_dir = app_dir_of app_id;
          static_dir = static_dir_of app_id
      in case remove_existing app_dir fs of
           Inl e \<Rightarrow> (Inl (Raised e), fs)
         | Inr fs1 \<Rightarrow>
           (case remove_existing static_dir fs1 of
              Inl e \<Rightarrow> (Inl (Raised e), fs1)
            | Inr fs2 \<Rightarrow> (Inr (), fs2)))"

record backup =
  backup_path :: path
  backup_filename :: string
  created_at :: string

text \<open>\<^verbatim>\<open>backup_deployment\<close>: \<^verbatim>\<open>stamp\<close> is the value of
  \<^verbatim>\<open>datetime.now().strftime('%Y%m%d_%H%M%S')\<close> and \<^verbatim>\<open>now\<close> that of the later
  \<^verbatim>\<open>datetime.now().isoformat()\<close>.\<close>

definition backup_deployment :: "string \<Rightarrow> string \<Rightarrow> string \<Rightarrow> filesystem \<Rightarrow> (failure + backup) \<times> filesystem" where
  "backup_deployment stamp now app_id fs =
     (let app_dir = app_dir_of app_id
      in if \<not> exists_path app_dir fs then (Inl DeploymentNotFound, fs)
         else
           (let filename = app_id @ ''_backup_'' @ stamp;
                bpath = [''backups'', filename]
            in case copytree app_dir bpath fs of
                 Inl e \<Rightarrow> (Inl (Raised e), fs)
               | Inr fs1 \<Rightarrow>
                   (Inr \<lparr>backup_path = bpath, backup_filename = filename, created_at = now\<rparr>, fs1)))"

text \<open>\<^verbatim>\<open>update_deployment\<close>: \<^verbatim>\<open>stamp\<close> and \<^verbatim>\<open>t_backup\<close> are the two clock readings of the
  backup, \<^verbatim>\<open>t_deploy\<close> that of the deploy and \<^verbatim>\<open>t_update\<close> that of \<^verbatim>\<open>updated_at\<close>.\<close>

definition update_deployment ::
  "runner \<Rightarrow> string \<Rightarrow> string \<Rightarrow> string \<Rightarrow> string \<Rightarrow> string \<Rightarrow> string \<Rightarrow> app_data \<Rightarrow> filesystem
     \<Rightarrow> (failure + deployment) \<times> filesystem" where
  "update_deployment run uuid stamp t_backup t_deploy t_update app_id d fs =
     (case get_deployment_info app_id fs of
        None \<Rightarrow> (Inl DeploymentNotFound, fs)
      | Some existing \<Rightarrow>
        (case backup_deployment stamp t_backup app_id fs of
           (Inl f, fs1) \<Rightarrow> (Inl f, fs1)
         | (Inr b, fs1) \<Rightarrow>
           (case deploy_app run uuid t_deploy (d\<lparr>ad_app_id := Some app_id\<rparr>) fs1 of
              (Inl f, fs2) \<Rightarrow> (Inl f, fs2)
            | (Inr dep, fs2) \<Rightarrow>
                (let dep' = dep\<lparr>d_updated_at := Some t_update,
                                d_backup_created := Some (backup_path b)\<rparr>
                 in case save_deployment_metadata app_id dep' fs2 of
                      Inl e \<Rightarrow> (Inl (Raised e), fs2)
                    | Inr fs3 \<Rightarrow> (Inr dep', fs3)))))"

section \<open>DomainManager\<close>

text \<open>
  \<^verbatim>\<open>domains.json\<close> holds one JSON object from application ids to the domain
  information of each, in insertion order. \<^verbatim>\<open>None\<close> stands for a file that cannot be
  opened or parsed, where every method's \<^verbatim>\<open>except\<close> branch answers.
\<close>

record domain_info =
  di_subdomain :: "string option"
  di_full_domain :: "string option"
  di_registered_at :: "string option"
  di_type :: "string option"
  di_custom_domain :: "string option"
  di_custom_domain_registered_at :: "string option"
  di_custom_domain_verified :: "bool option"

type_synonym domains_file = "(string \<times> domain_info) list option"

definition empty_info :: domain_info where
  "empty_info =
     \<lparr>di_subdomain = None, di_full_domain = None, di_registered_at = None, di_type = None,
      di_custom_domain = None, di_custom_domain_registered_at = None,
      di_custom_domain_verified = None\<rparr>"

definition subdomain_info :: "string \<Rightarrow> string \<Rightarrow> string \<Rightarrow> domain_info" where
  "subdomain_info subdomain full_domain now =
     \<lparr>di_subdomain = Some subdomain, di_full_domain = Some full_domain,
      di_registered_at = Some now, di_type = Some ''subdomain'',
      di_custom_domain = None, di_custom_domain_registered_at = None,
      di_custom_domain_verified = None\<rparr>"

definition register_subdomain ::
  "string \<Rightarrow> string \<Rightarrow> string \<Rightarrow> string \<Rightarrow> domains_file \<Rightarrow> (failure + string \<times> string) \<times> domains_file" where
  "register_subdomain base_domain now app_id subdomain store =
     (case store of
        None \<Rightarrow> (Inl (Raised (FileNotFoundError [''domains.json''])), None)
      | Some domains \<Rightarrow>
          if list_ex (\<lambda>(existing_app_id, info). di_subdomain info = Some subdomain) domains
          then (Inl SubdomainTaken, Some domains)
          else
            (let full_domain = subdomain @ ''.'' @ base_domain
             in (Inr (full_domain, subdomain),
                 Some (AList.update app_id (subdomain_info subdomain full_domain now) domains))))"

record dns_instructions =
  dns_type :: string
  dns_name :: string
  dns_value :: string

definition register_custom_domain ::
  "string \<Rightarrow> string \<Rightarrow> string \<Rightarrow> string \<Rightarrow> domains_file
     \<Rightarrow> (failure + string \<times> dns_instructions) \<times> domains_file" where
  "register_custom_domain base_domain now app_id custom_domain store =
     (case store of
        None \<Rightarrow> (Inl (Raised (FileNotFoundError [''domains.json''])), None)
      | Some domains \<Rightarrow>
          (let old = (case map_of domains app_id of None \<Rightarrow> empty_info | Some info \<Rightarrow> info);
               new = old\<lparr>di_custom_domain := Some custom_domain,
                          di_custom_domain_registered_at := Some now,
                          di_custom_domain_verified := Some False\<rparr>
           in (Inr (custom_domain,
                    \<lparr>dns_type = ''CNAME'', dns_name = custom_domain,
                     dns_value = app_id @ ''.'' @ base_domain\<rparr>),
               Some (AList.update app_id new domains))))"

definition get_domain_info :: "string \<Rightarrow> domains_file \<Rightarrow> domain_info option" where
  "get_domain_info app_id store =
     (case store of None \<Rightarrow> None | Some domains \<Rightarrow> map_of domains app_id)"

section \<open>Routes\<close>

text \<open>The two module-level managers share nothing but the application id: the state
  of the service is the deployment directory and the domains file.\<close>

record system =
  sys_fs :: filesystem
  sys_domains :: domains_file

definition deploy_application ::
  "runner \<Rightarrow> string \<Rightarrow> string \<Rightarrow> string \<Rightarrow> string \<Rightarrow> app_data \<Rightarrow> system
     \<Rightarrow> (failure + deployment) \<times> system" where
  "deploy_application run base_domain uuid now t_domain d s =
     (case deploy_app run uuid now d (sys_fs s) of
        (Inl f, fs1) \<Rightarrow> (Inl f, s\<lparr>sys_fs := fs1\<rparr>)
      | (Inr dep, fs1) \<Rightarrow>
          (case register_subdomain base_domain t_domain (d_app_id dep) (d_subdomain dep) (sys_domains s) of
             (Inl f, doms) \<Rightarrow> (Inr dep, \<lparr>sys_fs = fs1, sys_domains = doms\<rparr>)
           | (Inr (full_domain, sub), doms) \<Rightarrow>
               (Inr (dep\<lparr>d_domain := Some full_domain\<rparr>), \<lparr>sys_fs = fs1, sys_domains = doms\<rparr>)))"

definition delete_deployment_route :: "string \<Rightarrow> system \<Rightarrow> (failure + unit) \<times> system" where
  "delete_deployment_route app_id s =
     (case delete_deployment app_id (sys_fs s) of (r, fs1) \<Rightarrow> (r, s\<lparr>sys_fs := fs1\<rparr>))"

text \<open>\<^verbatim>\<open>serve_deployed_app\<close>: \<^verbatim>\<open>send_file\<close> opens the path it is given; on a directory
  that raises, and the route's \<^verbatim>\<open>except\<close> branch answers with status 500.\<close>

datatype response = Sent content | AppNotFound | FileNotFound | ServerError exn

definition send_file :: "path \<Rightarrow> filesystem \<Rightarrow> response" where
  "send_file p fs =
     (case fs p of
        Some (FileE c) \<Rightarrow> Sent c
      | Some DirE \<Rightarrow> ServerError (IsADirectoryError p)
      | None \<Rightarrow> ServerError (FileNotFoundError p))"

definition serve_deployed_app :: "string \<Rightarrow> path \<Rightarrow> filesystem \<Rightarrow> response" where
  "serve_deployed_app app_id filename fs =
     (let static_dir = static_dir_of app_id
      in if \<not> exists_path static_dir fs then AppNotFound
         else
           (let file_path = static_dir @ filename
            in if \<not> exists_path file_path fs then
                 (let index_path = static_dir @ [''index.html'']
                  in if exists_path index_path fs then send_file index_path fs
                     else FileNotFound)
               else send_file file_path fs))"

section \<open>The service at start, and the requests of the examples\<close>

text \<open>\<^verbatim>\<open>ensure_base_directory\<close>, which the constructor of \<^verbatim>\<open>DeploymentManager\<close> runs.\<close>

fun ensure_subdirs :: "string list \<Rightarrow> filesystem \<Rightarrow> exn + filesystem" where
  "ensure_subdirs [] fs = Inr fs"
| "ensure_subdirs (subdir # rest) fs =
     (if \<not> exists_path [subdir] fs then
        (case makedirs [subdir] fs of
           Inl e \<Rightarrow> Inl e
         | Inr fs1 \<Rightarrow> ensure_subdirs rest fs1)
      else ensure_subdirs rest fs)"

definition ensure_base_directory :: "filesystem \<Rightarrow> exn + filesystem" where
  "ensure_base_directory fs =
     (case (if \<not> exists_path [] fs then makedirs [] fs else Inr fs) of
        Inl e \<Rightarrow> Inl e
      | Inr fs1 \<Rightarrow> ensure_subdirs [''apps'', ''static'', ''backups''] fs1)"

text \<open>The deployment directory of a fresh installation: the base directory and its
  three sub-directories, all empty.\<close>

definition initial_fs :: filesystem where
  "initial_fs =
     (\<lambda>p. if p = [] \<or> p = [''apps''] \<or> p = [''static''] \<or> p = [''backups'']
          then Some DirE else None)"

text \<open>Three build tools: one whose steps exit with code 0 and write nothing, one whose
  steps exit with code 1, and one whose build step leaves a \<^verbatim>\<open>dist\<close> directory with a
  bundle in the application directory.\<close>

definition quiet_runner :: runner where
  "quiet_runner = (\<lambda>c fs. (Completed 0 ''ok'' [], fs))"

definition failing_runner :: runner where
  "failing_runner = (\<lambda>c fs. (Completed 1 [] ''npm ERR!'', fs))"

definition vite_runner :: runner where
  "vite_runner =
     (\<lambda>c fs. if argv c = [''npm'', ''run'', ''build'']
             then (Completed 0 ''built'' [],
                   fs(cwd c @ [''dist''] \<mapsto> DirE,
                      cwd c @ [''dist'', ''index.html''] \<mapsto> FileE (Text ''<div id=root>'')))
             else (Completed 0 ''installed'' [], fs))"

text \<open>The request of the specification's round-trip example, a second static request
  for the same application, a static request whose second key needs a directory where
  its first key is a file, and a request for a compiled application.\<close>

definition hello_static :: app_data where
  "hello_static =
     \<lparr>ad_app_id = Some ''x1'', ad_app_name = None, ad_app_type = Some ''static'',
      ad_files = Some [([''index.html''], ''<h1>Hi</h1>'')]\<rparr>"

definition second_static :: app_data where
  "second_static =
     \<lparr>ad_app_id = Some ''x1'', ad_app_name = None, ad_app_type = Some ''static'',
      ad_files = Some [([''home.html''], ''<h1>Home</h1>''), ([''css'', ''site.css''], ''h1 {}'')]\<rparr>"

definition conflicting_static :: app_data where
  "conflicting_static =
     \<lparr>ad_app_id = Some ''x1'', ad_app_name = None, ad_app_type = Some ''static'',
      ad_files = Some [([''a''], ''1''), ([''a'', ''b''], ''2'')]\<rparr>"

definition hello_react :: app_data where
  "hello_react =
     \<lparr>ad_app_id = Some ''x1'', ad_app_name = None, ad_app_type = Some ''react_app'',
      ad_files = Some [([''package.json''], ''{}'')]\<rparr>"

text \<open>A request for a compiled application whose files hold a shell script named
  \<^verbatim>\<open>build\<close> beside a bundle under \<^verbatim>\<open>dist\<close>.\<close>

definition build_script_react :: app_data where
  "build_script_react =
     \<lparr>ad_app_id = Some ''x1'', ad_app_name = None, ad_app_type = Some ''react_app'',
      ad_files = Some [([''package.json''], ''{}''), ([''build''], ''npm run build''),
                       ([''dist'', ''index.html''], ''<div id=root>'')]\<rparr>"

text \<open>The service of a fresh installation: an empty deployment directory and the empty
  JSON object that \<^verbatim>\<open>ensure_domains_file\<close> writes.\<close>

definition initial_system :: system where
  "initial_system = \<lparr>sys_fs = initial_fs, sys_domains = Some []\<rparr>"

section \<open>The tree of a file mapping\<close>

text \<open>
  The specification's File Tree Writer produces ``a directory whose contents exactly
  match the mapping''. In its words, not the code's: the directory itself and every
  proper ancestor of a key are directories, every other key is a regular file with the
  text mapped to it (the later entry when two keys name the same path), and nothing
  else exists. \<open>deployed_tree\<close> is that tree with the deployment record added as the
  file \<^verbatim>\<open>deployment.json\<close>.
\<close>

definition mapping_tree :: "(path \<times> string) list \<Rightarrow> path \<Rightarrow> entry option" where
  "mapping_tree files q =
     (if q = [] \<or> list_ex (\<lambda>(p, c). strict_prefix q p) files then Some DirE
      else map_option (\<lambda>c. FileE (Text c)) (map_of (rev files) q))"

definition deployed_tree :: "(path \<times> string) list \<Rightarrow> deployment \<Rightarrow> path \<Rightarrow> entry option" where
  "deployed_tree files config q =
     (if q = [''deployment.json''] then Some (FileE (Meta config)) else mapping_tree files q)"

section \<open>Facts about the library calls\<close>

lemmas evaluate =
  deploy_app_def write_source_tree_def Let_def exists_path_def app_dir_of_def static_dir_of_def
  makedirs_def write_file_def rmtree_def copytree_def save_deployment_metadata_def
  metadata_path_def remove_existing_def copy_to_static_def build_react_app_def
  copy_build_output_def install_command_def build_command_def resolve_app_id_def
  resolve_app_name_def resolve_app_type_def resolve_files_def config_of_def
  serve_deployed_app_def send_file_def get_deployment_info_def backup_deployment_def
  update_deployment_def delete_deployment_def initial_fs_def quiet_runner_def
  failing_runner_def vite_runner_def hello_static_def hello_react_def second_static_def
  conflicting_static_def build_script_react_def

lemma ensure_base_directory_initial: "ensure_base_directory (\<lambda>p. None) = Inr initial_fs"
  by (auto simp add: ensure_base_directory_def evaluate fun_eq_iff prefix_Cons)

lemma rmtree_Inr: "rmtree p fs = Inr fs' \<Longrightarrow> fs' = (\<lambda>q. if prefix p q then None else fs q)"
  by (simp add: rmtree_def split: option.splits entry.splits)

lemma remove_existing_absent:
  "remove_existing p fs = Inr fs' \<Longrightarrow> fs' p = None"
  by (auto simp: remove_existing_def exists_path_def dest!: rmtree_Inr split: if_splits)

lemma remove_existing_elsewhere:
  "remove_existing p fs = Inr fs' \<Longrightarrow> \<not> prefix p q \<Longrightarrow> fs' q = fs q"
  by (auto simp: remove_existing_def exists_path_def dest!: rmtree_Inr split: if_splits)

lemma remove_existing_below:
  "remove_existing p fs = Inr fs' \<Longrightarrow> fs p \<noteq> None \<Longrightarrow> prefix p q \<Longrightarrow> fs' q = None"
  by (auto simp: remove_existing_def exists_path_def dest!: rmtree_Inr split: if_splits)

lemma remove_existing_succeeds:
  assumes "\<not> is_file (fs p)"
  shows "\<exists>fs'. remove_existing p fs = Inr fs'"
proof (cases "fs p")
  case None
  then show ?thesis by (simp add: remove_existing_def exists_path_def)
next
  case (Some e)
  with assms have "e = DirE" by (cases e) simp_all
  with Some show ?thesis by (simp add: remove_existing_def exists_path_def rmtree_def)
qed

lemma copytree_Inr:
  "copytree src dst fs = Inr fs' \<Longrightarrow>
     fs' = (\<lambda>q. if prefix dst q then fs (src @ drop (length dst) q)
                else if prefix q dst then Some DirE else fs q)"
  by (simp add: copytree_def split: option.splits entry.splits if_splits)

lemma copytree_elsewhere:
  "copytree src dst fs = Inr fs' \<Longrightarrow> \<not> prefix dst q \<Longrightarrow> \<not> prefix q dst \<Longrightarrow> fs' q = fs q"
  by (auto dest!: copytree_Inr)

lemma copytree_below:
  "copytree src dst fs = Inr fs' \<Longrightarrow> fs' (dst @ q) = fs (src @ q)"
  by (auto dest!: copytree_Inr)

lemma copytree_succeeds:
  assumes "fs src = Some DirE" "fs dst = None" "\<forall>q. prefix q dst \<longrightarrow> \<not> is_file (fs q)"
  shows "\<exists>fs'. copytree src dst fs = Inr fs'"
  using assms by (auto simp: copytree_def list_ex_iff)

lemma makedirs_Inr:
  "makedirs p fs = Inr fs' \<Longrightarrow> fs' = (\<lambda>q. if prefix q p then Some DirE else fs q)"
  by (simp add: makedirs_def split: if_splits)

lemma write_file_Inr: "write_file p c fs = Inr fs' \<Longrightarrow> fs' = fs(p \<mapsto> FileE c)"
  by (simp add: write_file_def split: option.splits entry.splits)

lemma static_apart [simp]:
  "\<not> prefix (static_dir_of a) (app_dir_of b @ q)"
  "\<not> prefix (app_dir_of b @ q) (static_dir_of a)"
  "\<not> prefix (static_dir_of a) (metadata_path b)"
  "\<not> prefix (metadata_path b) (static_dir_of a)"
  by (simp_all add: static_dir_of_def app_dir_of_def metadata_path_def)

lemma metadata_below: "metadata_path app_id = app_dir_of app_id @ [''deployment.json'']"
  by (simp add: metadata_path_def app_dir_of_def)

lemmas evaluate_routes =
  deploy_application_def delete_deployment_route_def initial_system_def register_subdomain_def
  subdomain_info_def get_domain_info_def deployment_config_def

lemma prefix_static_dir:
  "prefix q (static_dir_of a) \<longleftrightarrow> q = [] \<or> q = [''static''] \<or> q = static_dir_of a"
  by (auto simp: static_dir_of_def prefix_Cons)

lemma publish_copy:
  assumes env: "\<not> is_file (fs [])" "\<not> is_file (fs [''static''])"
    and absent: "fs (static_dir_of a) = None"
    and src: "fs src = Some DirE"
  shows "\<exists>fs'. copytree src (static_dir_of a) fs = Inr fs'"
proof (rule copytree_succeeds [OF src absent])
  show "\<forall>q. prefix q (static_dir_of a) \<longrightarrow> \<not> is_file (fs q)"
    using env absent by (auto simp: prefix_static_dir)
qed

lemma copy_build_output_elsewhere:
  assumes "\<not> prefix (static_dir_of a) q" "\<not> prefix q (static_dir_of a)"
  shows "snd (copy_build_output app_dir a out fs) q = fs q"
proof (cases "remove_existing (static_dir_of a) fs")
  case (Inl e)
  then show ?thesis by (simp add: copy_build_output_def)
next
  case (Inr fs1)
  have 1: "fs1 q = fs q" using remove_existing_elsewhere [OF Inr assms(1)] .
  have 2: "copytree s (static_dir_of a) fs1 = Inr fs2 \<Longrightarrow> fs2 q = fs q" for s fs2
    using copytree_elsewhere [of s "static_dir_of a" fs1 fs2 q] assms 1 by simp
  show ?thesis
  proof (cases "exists_path (app_dir @ [''build'']) fs1")
    case True
    then show ?thesis
      using Inr 1 2 [of "app_dir @ [''build'']"]
      by (simp add: copy_build_output_def Let_def split: sum.splits)
  next
    case False
    then show ?thesis
      using Inr 1 2 [of "app_dir @ [''dist'']"]
      by (simp add: copy_build_output_def Let_def split: sum.splits)
  qed
qed

lemma build_react_app_elsewhere:
  assumes frame: "\<forall>c g. snd (run c g) q = g q"
    and "\<not> prefix (static_dir_of a) q" "\<not> prefix q (static_dir_of a)"
  shows "snd (build_react_app run app_dir a fs) q = fs q"
proof -
  obtain oi fs1 where i: "run (install_command app_dir) fs = (oi, fs1)" by force
  obtain ob fs2 where b: "run (build_command app_dir) fs1 = (ob, fs2)" by force
  from frame i have 1: "fs1 q = fs q" by (metis snd_conv)
  from frame b have 2: "fs2 q = fs1 q" by (metis snd_conv)
  have 3: "snd (copy_build_output app_dir a out fs2) q = fs q" for out
    using copy_build_output_elsewhere [OF assms(2,3)] 1 2 by simp
  show ?thesis
    using 1 2 3 by (simp add: build_react_app_def i b split: outcome.splits)
qed

lemma copy_to_static_elsewhere:
  assumes "\<not> prefix (static_dir_of a) q" "\<not> prefix q (static_dir_of a)"
  shows "snd (copy_to_static a fs) q = fs q"
proof (cases "remove_existing (static_dir_of a) fs")
  case (Inl e)
  then show ?thesis by (simp add: copy_to_static_def)
next
  case (Inr fs1)
  have 1: "fs1 q = fs q" using remove_existing_elsewhere [OF Inr assms(1)] .
  have 2: "copytree s (static_dir_of a) fs1 = Inr fs2 \<Longrightarrow> fs2 q = fs q" for s fs2
    using copytree_elsewhere [of s "static_dir_of a" fs1 fs2 q] assms 1 by simp
  show ?thesis
    using Inr 1 2 by (simp add: copy_to_static_def Let_def split: sum.splits)
qed

section \<open>The Domain Registry\<close>

lemma register_subdomain_taken_iff:
  "fst (register_subdomain bd now a sub store) = Inl SubdomainTaken \<longleftrightarrow>
     (\<exists>domains. store = Some domains \<and> (\<exists>x\<in>set domains. di_subdomain (snd x) = Some sub))"
proof (cases store)
  case None
  then show ?thesis by (simp add: register_subdomain_def)
next
  case (Some domains)
  then show ?thesis
    by (simp add: register_subdomain_def list_ex_iff Let_def case_prod_beta)
qed

lemma update_holds_subdomain:
  "\<exists>x\<in>set (AList.update a (subdomain_info sub fd now) domains). di_subdomain (snd x) = Some sub"
  by (induction domains) (simp_all add: subdomain_info_def)

lemma register_subdomain_free:
  assumes "\<forall>x\<in>set domains. di_subdomain (snd x) \<noteq> Some sub"
  shows "register_subdomain bd now a sub (Some domains) =
     (Inr (sub @ ''.'' @ bd, sub),
      Some (AList.update a (subdomain_info sub (sub @ ''.'' @ bd) now) domains))"
proof -
  from assms have "\<not> list_ex (\<lambda>(k, info). di_subdomain info = Some sub) domains"
    by (simp add: list_ex_iff case_prod_beta)
  then show ?thesis
    by (simp add: register_subdomain_def Let_def)
qed

lemma register_subdomain_again:
  "fst (register_subdomain bd now' b sub
      (Some (AList.update a (subdomain_info sub fd now) domains))) = Inl SubdomainTaken"
  unfolding register_subdomain_taken_iff
  using update_holds_subdomain [of a sub fd now domains] by simp

text \<open>
  Claim C1, as the code has it. \<^verbatim>\<open>register_subdomain\<close> answers
  \<^verbatim>\<open>Subdomain already taken\<close> exactly when the domains file is readable and some binding
  in it, of any application id, the caller's own included, holds that subdomain string
  (compared with \<^verbatim>\<open>==\<close>, so case-sensitively). When no binding holds the subdomain, the
  first registration succeeds with \<^verbatim>\<open>subdomain.base_domain\<close>, and a second registration
  of the same string, by any application id, fails with \<^verbatim>\<open>Subdomain already taken\<close>.
\<close>

theorem register_subdomain_taken:
  "(fst (register_subdomain bd now a sub store) = Inl SubdomainTaken \<longleftrightarrow>
     (\<exists>domains. store = Some domains \<and> (\<exists>x\<in>set domains. di_subdomain (snd x) = Some sub)))
   \<and> (\<forall>domains. store = Some domains \<and> (\<forall>x\<in>set domains. di_subdomain (snd x) \<noteq> Some sub) \<longrightarrow>
        fst (register_subdomain bd now a sub store) = Inr (sub @ ''.'' @ bd, sub) \<and>
        fst (register_subdomain bd now' b sub (snd (register_subdomain bd now a sub store)))
          = Inl SubdomainTaken)"
proof (intro conjI allI impI)
  show "fst (register_subdomain bd now a sub store) = Inl SubdomainTaken \<longleftrightarrow>
     (\<exists>domains. store = Some domains \<and> (\<exists>x\<in>set domains. di_subdomain (snd x) = Some sub))"
    by (rule register_subdomain_taken_iff)
next
  fix domains
  assume h: "store = Some domains \<and> (\<forall>x\<in>set domains. di_subdomain (snd x) \<noteq> Some sub)"
  then have st: "store = Some domains"
    and free: "\<forall>x\<in>set domains. di_subdomain (snd x) \<noteq> Some sub"
    by blast+
  show "fst (register_subdomain bd now a sub store) = Inr (sub @ ''.'' @ bd, sub)"
    unfolding st register_subdomain_free [OF free] by simp
  show "fst (register_subdomain bd now' b sub (snd (register_subdomain bd now a sub store)))
          = Inl SubdomainTaken"
    unfolding st register_subdomain_free [OF free] snd_conv by (rule register_subdomain_again)
qed

theorem register_subdomain_taken_witness:
  "fst (register_subdomain ''sebaircode.com'' ''t1'' ''a1'' ''shop'' (Some []))
     = Inr (''shop.sebaircode.com'', ''shop'')
   \<and> fst (register_subdomain ''sebaircode.com'' ''t2'' ''a2'' ''shop''
        (snd (register_subdomain ''sebaircode.com'' ''t1'' ''a1'' ''shop'' (Some []))))
     = Inl SubdomainTaken"
  using register_subdomain_taken
    [of "''sebaircode.com''" "''t1''" "''a1''" "''shop''" "Some []" "''t2''" "''a2''"]
  by simp

text \<open>
  The claim as the specification words it fails: the scan does not skip the caller's own
  binding, so an application that registers the subdomain it already holds is refused,
  although no other application holds it.
\<close>

theorem register_own_subdomain_again_refused:
  "snd (register_subdomain ''sebaircode.com'' ''t1'' ''a1'' ''shop'' (Some []))
     = Some [(''a1'', subdomain_info ''shop'' ''shop.sebaircode.com'' ''t1'')]
   \<and> fst (register_subdomain ''sebaircode.com'' ''t2'' ''a1'' ''shop''
        (snd (register_subdomain ''sebaircode.com'' ''t1'' ''a1'' ''shop'' (Some []))))
     = Inl SubdomainTaken"
  by (simp add: register_subdomain_def subdomain_info_def Let_def)

lemma map_of_update_same: "map_of (AList.update k v al) k = Some v"
  by (simp add: update_conv')

text \<open>
  Claim C10. A successful \<^verbatim>\<open>register_subdomain\<close> stores for the application a fresh
  binding of the four subdomain fields only: whatever \<^verbatim>\<open>register_custom_domain\<close> had
  stored for it (\<^verbatim>\<open>custom_domain\<close>, \<^verbatim>\<open>custom_domain_registered_at\<close>,
  \<^verbatim>\<open>custom_domain_verified\<close>) is gone afterwards.
\<close>

theorem register_subdomain_replaces_binding:
  "fst (register_subdomain bd now a sub store) = Inr r \<Longrightarrow>
     get_domain_info a (snd (register_subdomain bd now a sub store))
       = Some \<lparr>di_subdomain = Some sub, di_full_domain = Some (sub @ ''.'' @ bd),
               di_registered_at = Some now, di_type = Some ''subdomain'',
               di_custom_domain = None, di_custom_domain_registered_at = None,
               di_custom_domain_verified = None\<rparr>"
  by (cases store)
     (simp_all add: register_subdomain_def get_domain_info_def Let_def subdomain_info_def
        map_of_update_same split: if_splits)

theorem register_subdomain_replaces_binding_witness:
  "get_domain_info ''x1''
      (snd (register_custom_domain ''sebaircode.com'' ''t1'' ''x1'' ''www.example.org'' (Some [])))
     = Some \<lparr>di_subdomain = None, di_full_domain = None, di_registered_at = None,
             di_type = None, di_custom_domain = Some ''www.example.org'',
             di_custom_domain_registered_at = Some ''t1'',
             di_custom_domain_verified = Some False\<rparr>
   \<and> fst (register_subdomain ''sebaircode.com'' ''t2'' ''x1'' ''shop''
        (snd (register_custom_domain ''sebaircode.com'' ''t1'' ''x1'' ''www.example.org'' (Some []))))
     = Inr (''shop.sebaircode.com'', ''shop'')
   \<and> get_domain_info ''x1''
        (snd (register_subdomain ''sebaircode.com'' ''t2'' ''x1'' ''shop''
           (snd (register_custom_domain ''sebaircode.com'' ''t1'' ''x1'' ''www.example.org'' (Some [])))))
     = Some \<lparr>di_subdomain = Some ''shop'', di_full_domain = Some ''shop.sebaircode.com'',
             di_registered_at = Some ''t2'', di_type = Some ''subdomain'',
             di_custom_domain = None, di_custom_domain_registered_at = None,
             di_custom_domain_verified = None\<rparr>"
proof -
  have ok: "fst (register_subdomain ''sebaircode.com'' ''t2'' ''x1'' ''shop''
        (snd (register_custom_domain ''sebaircode.com'' ''t1'' ''x1'' ''www.example.org'' (Some []))))
     = Inr (''shop.sebaircode.com'', ''shop'')"
    by (simp add: register_subdomain_def register_custom_domain_def empty_info_def Let_def)
  have before: "get_domain_info ''x1''
      (snd (register_custom_domain ''sebaircode.com'' ''t1'' ''x1'' ''www.example.org'' (Some [])))
     = Some \<lparr>di_subdomain = None, di_full_domain = None, di_registered_at = None,
             di_type = None, di_custom_domain = Some ''www.example.org'',
             di_custom_domain_registered_at = Some ''t1'',
             di_custom_domain_verified = Some False\<rparr>"
    by (simp add: register_custom_domain_def get_domain_info_def empty_info_def Let_def)
  from before ok register_subdomain_replaces_binding [OF ok] show ?thesis
    by simp
qed

section \<open>The Static Server\<close>

text \<open>
  Claim C5, as far as the code has it. \<^verbatim>\<open>serve_deployed_app\<close> answers
  \<^verbatim>\<open>App not found\<close> when no published tree exists for the application; otherwise it
  sends the regular file at the requested path when there is one, sends the root
  document \<^verbatim>\<open>index.html\<close> when nothing exists at the requested path and the root document
  is a regular file, and answers \<^verbatim>\<open>File not found\<close> when nothing exists at the
  requested path nor at the root document's. A request that names no file is one for
  \<^verbatim>\<open>index.html\<close>, the default of the route.
\<close>

theorem serve_deployed_app_cases:
  "(\<not> exists_path (static_dir_of app_id) fs \<longrightarrow>
       serve_deployed_app app_id filename fs = AppNotFound)
   \<and> (\<forall>c. exists_path (static_dir_of app_id) fs \<and>
          fs (static_dir_of app_id @ filename) = Some (FileE c) \<longrightarrow>
        serve_deployed_app app_id filename fs = Sent c)
   \<and> (\<forall>c. exists_path (static_dir_of app_id) fs \<and>
          fs (static_dir_of app_id @ filename) = None \<and>
          fs (static_dir_of app_id @ [''index.html'']) = Some (FileE c) \<longrightarrow>
        serve_deployed_app app_id filename fs = Sent c)
   \<and> (exists_path (static_dir_of app_id) fs \<and>
          fs (static_dir_of app_id @ filename) = None \<and>
          fs (static_dir_of app_id @ [''index.html'']) = None \<longrightarrow>
        serve_deployed_app app_id filename fs = FileNotFound)"
  by (simp add: serve_deployed_app_def Let_def exists_path_def send_file_def)

theorem serve_deployed_app_cases_witness:
  "serve_deployed_app ''x1'' [''index.html''] initial_fs = AppNotFound
   \<and> serve_deployed_app ''x1'' [''index.html'']
        (snd (deploy_app quiet_runner ''u'' ''t1'' hello_static initial_fs)) = Sent (Text ''<h1>Hi</h1>'')
   \<and> serve_deployed_app ''x1'' [''missing.html'']
        (snd (deploy_app quiet_runner ''u'' ''t1'' hello_static initial_fs)) = Sent (Text ''<h1>Hi</h1>'')
   \<and> serve_deployed_app ''x1'' [''missing.html'']
        (snd (deploy_app quiet_runner ''u'' ''t1'' second_static initial_fs)) = FileNotFound"
  using serve_deployed_app_cases [of "''x1''" initial_fs "[''index.html'']"]
    serve_deployed_app_cases [of "''x1''" "snd (deploy_app quiet_runner ''u'' ''t1'' hello_static initial_fs)"
      "[''index.html'']"]
    serve_deployed_app_cases [of "''x1''" "snd (deploy_app quiet_runner ''u'' ''t1'' hello_static initial_fs)"
      "[''missing.html'']"]
    serve_deployed_app_cases [of "''x1''" "snd (deploy_app quiet_runner ''u'' ''t1'' second_static initial_fs)"
      "[''missing.html'']"]
  by (simp add: evaluate)

text \<open>
  The claim as the specification words it fails on a requested path that exists as a
  directory of the published tree: \<^verbatim>\<open>os.path.exists\<close> holds of it, so there is no
  fallback, and \<^verbatim>\<open>send_file\<close> cannot open it; the answer is neither a file, nor the
  root document, nor one of the two not-found answers.
\<close>

theorem serve_directory_is_server_error:
  "serve_deployed_app ''x1'' [''css'']
      (snd (deploy_app quiet_runner ''u'' ''t1'' second_static initial_fs))
     = ServerError (IsADirectoryError [''static'', ''x1'', ''css''])"
  by (simp add: evaluate)

section \<open>Update: the failures that come first\<close>

lemma backup_deployment_failure_unchanged:
  "fst (backup_deployment stamp now app_id fs) = Inl f \<Longrightarrow>
     snd (backup_deployment stamp now app_id fs) = fs"
  by (simp add: backup_deployment_def Let_def split: if_splits sum.splits)

lemma update_deployment_backup_failure:
  assumes "get_deployment_info app_id fs = Some r"
    and "fst (backup_deployment stamp tb app_id fs) = Inl f"
  shows "update_deployment run uuid stamp tb td tu app_id d fs = (Inl f, fs)"
proof -
  have "backup_deployment stamp tb app_id fs = (Inl f, fs)"
    using assms(2) backup_deployment_failure_unchanged [of stamp tb app_id fs f]
    by (simp add: prod_eq_iff)
  with assms(1) show ?thesis
    by (simp add: update_deployment_def)
qed

text \<open>
  Claim C7. \<^verbatim>\<open>update_deployment\<close> answers \<^verbatim>\<open>Deployment not found\<close> when there is no
  deployment record for the application, and when the backup fails it answers with the
  backup's failure; in both cases the deployment directory is returned as it was, so
  the source tree, the published tree and the record are unchanged.
\<close>

theorem update_deployment_fails_early:
  "(get_deployment_info app_id fs = None \<longrightarrow>
      update_deployment run uuid stamp tb td tu app_id d fs = (Inl DeploymentNotFound, fs))
   \<and> (\<forall>r f. get_deployment_info app_id fs = Some r \<and>
            fst (backup_deployment stamp tb app_id fs) = Inl f \<longrightarrow>
      update_deployment run uuid stamp tb td tu app_id d fs = (Inl f, fs))"
proof (intro conjI allI impI)
  assume "get_deployment_info app_id fs = None"
  then show "update_deployment run uuid stamp tb td tu app_id d fs = (Inl DeploymentNotFound, fs)"
    by (simp add: update_deployment_def)
next
  fix r f
  assume h: "get_deployment_info app_id fs = Some r \<and>
    fst (backup_deployment stamp tb app_id fs) = Inl f"
  then show "update_deployment run uuid stamp tb td tu app_id d fs = (Inl f, fs)"
    using update_deployment_backup_failure by blast
qed

theorem update_deployment_fails_early_witness:
  "update_deployment quiet_runner ''u'' ''20260101_000000'' ''tb'' ''td'' ''tu'' ''x1''
      second_static initial_fs
     = (Inl DeploymentNotFound, initial_fs)
   \<and> update_deployment quiet_runner ''u'' ''20260101_000000'' ''tb'' ''td'' ''tu'' ''x1''
      second_static
      (snd (update_deployment quiet_runner ''u'' ''20260101_000000'' ''tb'' ''td'' ''tu'' ''x1''
         second_static (snd (deploy_app quiet_runner ''u'' ''t1'' hello_static initial_fs))))
     = (Inl (Raised (FileExistsError [''backups'', ''x1_backup_20260101_000000''])),
        snd (update_deployment quiet_runner ''u'' ''20260101_000000'' ''tb'' ''td'' ''tu'' ''x1''
         second_static (snd (deploy_app quiet_runner ''u'' ''t1'' hello_static initial_fs))))"
proof -
  let ?fs = "snd (update_deployment quiet_runner ''u'' ''20260101_000000'' ''tb'' ''td'' ''tu'' ''x1''
         second_static (snd (deploy_app quiet_runner ''u'' ''t1'' hello_static initial_fs)))"
  have none: "get_deployment_info ''x1'' initial_fs = None"
    by (simp add: evaluate)
  have some: "get_deployment_info ''x1'' ?fs
      = Some ((config_of ''u'' ''td'' second_static)
          \<lparr>d_updated_at := Some ''tu'',
            d_backup_created := Some [''backups'', ''x1_backup_20260101_000000'']\<rparr>)"
    by (simp add: evaluate)
  have fails: "fst (backup_deployment ''20260101_000000'' ''tb'' ''x1'' ?fs)
      = Inl (Raised (FileExistsError [''backups'', ''x1_backup_20260101_000000'']))"
    by (simp add: evaluate)
  from none some fails
    update_deployment_fails_early [of "''x1''" initial_fs quiet_runner "''u''"
      "''20260101_000000''" "''tb''" "''td''" "''tu''" second_static]
    update_deployment_fails_early [of "''x1''" ?fs quiet_runner "''u''"
      "''20260101_000000''" "''tb''" "''td''" "''tu''" second_static]
  show ?thesis by blast
qed

section \<open>A build without an output directory\<close>

lemma copy_build_output_not_found:
  assumes "copy_build_output app_dir app_id out fs = (Inl BuildDirectoryNotFound, fs')"
  shows "fs' (static_dir_of app_id) = None"
proof (cases "remove_existing (static_dir_of app_id) fs")
  case (Inl e)
  with assms show ?thesis by (simp add: copy_build_output_def)
next
  case (Inr fs1)
  with assms have "fs' = fs1"
    by (simp add: copy_build_output_def Let_def split: if_splits sum.splits)
  with Inr show ?thesis by (simp add: remove_existing_absent)
qed

lemma build_react_app_not_found:
  assumes "build_react_app run app_dir app_id fs = (Inl BuildDirectoryNotFound, fs')"
  shows "fs' (static_dir_of app_id) = None"
proof -
  from assms obtain out fs2
    where "copy_build_output app_dir app_id out fs2 = (Inl BuildDirectoryNotFound, fs')"
    by (auto simp: build_react_app_def split: prod.splits outcome.splits if_splits)
  then show ?thesis by (rule copy_build_output_not_found)
qed

lemma deploy_app_not_found:
  assumes "fst (deploy_app run uuid now d fs) = Inl BuildDirectoryNotFound"
  shows "\<exists>fs2. build_react_app run (app_dir_of (resolve_app_id uuid d)) (resolve_app_id uuid d) fs2
           = (Inl BuildDirectoryNotFound, snd (deploy_app run uuid now d fs))"
  using assms
  by (auto simp: deploy_app_def Let_def split: prod.splits option.splits sum.splits if_splits)

text \<open>
  Claim C9. When a deploy ends with \<^verbatim>\<open>Build directory not found\<close> (both build steps
  exited with code 0, and neither \<^verbatim>\<open>build\<close> nor \<^verbatim>\<open>dist\<close> exists), the application has
  no published tree afterwards, whatever was published before: the old tree was removed
  before the output directories were looked for, and \<^verbatim>\<open>serve_deployed_app\<close> answers
  \<^verbatim>\<open>App not found\<close> for every path.
\<close>

theorem build_directory_not_found_unpublishes:
  assumes "fst (deploy_app run uuid now d fs) = Inl BuildDirectoryNotFound"
  shows "snd (deploy_app run uuid now d fs) (static_dir_of (resolve_app_id uuid d)) = None
       \<and> serve_deployed_app (resolve_app_id uuid d) filename (snd (deploy_app run uuid now d fs))
           = AppNotFound"
proof -
  from deploy_app_not_found [OF assms]
  have "snd (deploy_app run uuid now d fs) (static_dir_of (resolve_app_id uuid d)) = None"
    by (auto dest: build_react_app_not_found)
  then show ?thesis
    by (simp add: serve_deployed_app_def exists_path_def)
qed

theorem build_directory_not_found_unpublishes_witness:
  "serve_deployed_app ''x1'' [''index.html'']
      (snd (deploy_app quiet_runner ''u'' ''t1'' hello_static initial_fs)) = Sent (Text ''<h1>Hi</h1>'')
   \<and> fst (deploy_app quiet_runner ''u'' ''t2'' hello_react
        (snd (deploy_app quiet_runner ''u'' ''t1'' hello_static initial_fs))) = Inl BuildDirectoryNotFound
   \<and> serve_deployed_app ''x1'' [''index.html'']
        (snd (deploy_app quiet_runner ''u'' ''t2'' hello_react
           (snd (deploy_app quiet_runner ''u'' ''t1'' hello_static initial_fs)))) = AppNotFound"
proof -
  have before: "serve_deployed_app ''x1'' [''index.html'']
      (snd (deploy_app quiet_runner ''u'' ''t1'' hello_static initial_fs)) = Sent (Text ''<h1>Hi</h1>'')"
    by (simp add: evaluate)
  have fails: "fst (deploy_app quiet_runner ''u'' ''t2'' hello_react
        (snd (deploy_app quiet_runner ''u'' ''t1'' hello_static initial_fs))) = Inl BuildDirectoryNotFound"
    by (simp add: evaluate)
  have id: "resolve_app_id ''u'' hello_react = ''x1''"
    by (simp add: resolve_app_id_def hello_react_def)
  from build_directory_not_found_unpublishes [OF fails, of "[''index.html'']"] before fails
  show ?thesis unfolding id by simp
qed

section \<open>Delete\<close>

lemma delete_deployment_effect:
  assumes app: "fs (app_dir_of app_id) = Some DirE"
    and st: "\<not> is_file (fs (static_dir_of app_id))"
  shows "fst (delete_deployment app_id fs) = Inr ()"
    and "snd (delete_deployment app_id fs) (app_dir_of app_id @ q) = None"
    and "snd (delete_deployment app_id fs) (static_dir_of app_id) = None"
proof -
  from app obtain fs1 where r1: "remove_existing (app_dir_of app_id) fs = Inr fs1"
    using remove_existing_succeeds [of fs "app_dir_of app_id"] by auto
  have below: "fs1 (app_dir_of app_id @ q) = None" for q
    using remove_existing_below [OF r1, of "app_dir_of app_id @ q"] app by simp
  have "fs1 (static_dir_of app_id) = fs (static_dir_of app_id)"
    using remove_existing_elsewhere [OF r1, of "static_dir_of app_id"]
    by (simp add: app_dir_of_def static_dir_of_def)
  with st have "\<not> is_file (fs1 (static_dir_of app_id))" by simp
  then obtain fs2 where r2: "remove_existing (static_dir_of app_id) fs1 = Inr fs2"
    using remove_existing_succeeds by blast
  have d: "delete_deployment app_id fs = (Inr (), fs2)"
    by (simp add: delete_deployment_def Let_def r1 r2)
  show "fst (delete_deployment app_id fs) = Inr ()" by (simp add: d)
  show "snd (delete_deployment app_id fs) (app_dir_of app_id @ q) = None"
    using remove_existing_elsewhere [OF r2, of "app_dir_of app_id @ q"] below
    by (simp add: d)
  show "snd (delete_deployment app_id fs) (static_dir_of app_id) = None"
    using remove_existing_absent [OF r2] by (simp add: d)
qed

text \<open>
  Claim C3, as the code has it. For an application whose source directory exists (and
  whose published directory, if there is one, is a directory), the delete request
  succeeds and removes the source directory with all below it and the published
  directory. The deployment record is the file \<^verbatim>\<open>deployment.json\<close> inside the source
  directory, so it is removed with it: \<^verbatim>\<open>get_deployment_info\<close> returns nothing
  afterwards, and \<^verbatim>\<open>serve_deployed_app\<close> answers \<^verbatim>\<open>App not found\<close>. The domains file is
  not touched: \<^verbatim>\<open>get_domain_info\<close> returns what it returned before.
\<close>

theorem delete_removes_record_keeps_binding:
  assumes "sys_fs s (app_dir_of app_id) = Some DirE"
    and "\<not> is_file (sys_fs s (static_dir_of app_id))"
  shows "fst (delete_deployment_route app_id s) = Inr ()
     \<and> (\<forall>q. sys_fs (snd (delete_deployment_route app_id s)) (app_dir_of app_id @ q) = None)
     \<and> sys_fs (snd (delete_deployment_route app_id s)) (static_dir_of app_id) = None
     \<and> get_deployment_info app_id (sys_fs (snd (delete_deployment_route app_id s))) = None
     \<and> serve_deployed_app app_id filename (sys_fs (snd (delete_deployment_route app_id s)))
         = AppNotFound
     \<and> sys_domains (snd (delete_deployment_route app_id s)) = sys_domains s
     \<and> get_domain_info app_id (sys_domains (snd (delete_deployment_route app_id s)))
         = get_domain_info app_id (sys_domains s)"
proof -
  note eff = delete_deployment_effect [OF assms]
  have fs': "sys_fs (snd (delete_deployment_route app_id s))
      = snd (delete_deployment app_id (sys_fs s))"
    by (simp add: delete_deployment_route_def split: prod.splits)
  have doms: "sys_domains (snd (delete_deployment_route app_id s)) = sys_domains s"
    by (simp add: delete_deployment_route_def split: prod.splits)
  have r: "fst (delete_deployment_route app_id s) = Inr ()"
    using eff(1)
    by (cases "delete_deployment app_id (sys_fs s)") (simp add: delete_deployment_route_def)
  have g: "get_deployment_info app_id (snd (delete_deployment app_id (sys_fs s))) = None"
    using eff(2) [of "[''deployment.json'']"]
    by (simp add: get_deployment_info_def metadata_below)
  have sv: "serve_deployed_app app_id filename (snd (delete_deployment app_id (sys_fs s)))
      = AppNotFound"
    using eff(3) by (simp add: serve_deployed_app_def exists_path_def)
  show ?thesis
    unfolding fs' doms using r eff(2) eff(3) g sv by simp
qed

theorem delete_removes_record_keeps_binding_witness:
  "get_domain_info ''x1''
      (sys_domains (snd (deploy_application quiet_runner ''sebaircode.com'' ''u'' ''t1'' ''t2''
         hello_static initial_system)))
     = Some (subdomain_info ''x1'' ''x1.sebaircode.com'' ''t2'')
   \<and> get_domain_info ''x1''
      (sys_domains (snd (delete_deployment_route ''x1''
        (snd (deploy_application quiet_runner ''sebaircode.com'' ''u'' ''t1'' ''t2''
           hello_static initial_system)))))
     = Some (subdomain_info ''x1'' ''x1.sebaircode.com'' ''t2'')
   \<and> serve_deployed_app ''x1'' [''index.html'']
      (sys_fs (snd (delete_deployment_route ''x1''
        (snd (deploy_application quiet_runner ''sebaircode.com'' ''u'' ''t1'' ''t2''
           hello_static initial_system)))))
     = AppNotFound"
proof -
  let ?s = "snd (deploy_application quiet_runner ''sebaircode.com'' ''u'' ''t1'' ''t2''
    hello_static initial_system)"
  have a: "sys_fs ?s (app_dir_of ''x1'') = Some DirE"
    by (simp add: evaluate evaluate_routes)
  have b: "\<not> is_file (sys_fs ?s (static_dir_of ''x1''))"
    by (simp add: evaluate evaluate_routes)
  have c: "get_domain_info ''x1'' (sys_domains ?s)
      = Some (subdomain_info ''x1'' ''x1.sebaircode.com'' ''t2'')"
    by (simp add: evaluate evaluate_routes)
  from delete_removes_record_keeps_binding [OF a b, of "[''index.html'']"] c
  show ?thesis by simp
qed

text \<open>
  The claim as the specification words it fails: after the round-trip example's deploy
  the record is there, and after the delete request \<^verbatim>\<open>get_deployment_info\<close> no longer
  returns it.
\<close>

theorem delete_removes_deployment_record:
  "get_deployment_info ''x1''
      (sys_fs (snd (deploy_application quiet_runner ''sebaircode.com'' ''u'' ''t1'' ''t2''
         hello_static initial_system)))
     = Some (config_of ''u'' ''t1'' hello_static)
   \<and> fst (delete_deployment_route ''x1''
        (snd (deploy_application quiet_runner ''sebaircode.com'' ''u'' ''t1'' ''t2''
           hello_static initial_system)))
     = Inr ()
   \<and> get_deployment_info ''x1''
      (sys_fs (snd (delete_deployment_route ''x1''
        (snd (deploy_application quiet_runner ''sebaircode.com'' ''u'' ''t1'' ''t2''
           hello_static initial_system)))))
     = None"
  by (simp add: evaluate evaluate_routes)

section \<open>Deploy: the order of the stages\<close>

lemma saved_record:
  "save_deployment_metadata a config fs = Inr fs' \<Longrightarrow> get_deployment_info a fs' = Some config"
  by (auto simp: save_deployment_metadata_def get_deployment_info_def dest!: write_file_Inr)

lemma deploy_app_after_record:
  assumes id: "resolve_app_id uuid d = a"
    and ws: "fst (write_source_tree a (resolve_files d) fs) = None"
    and sv: "save_deployment_metadata a (config_of uuid now d)
               (snd (write_source_tree a (resolve_files d) fs)) = Inr fs2"
  shows "deploy_app run uuid now d fs =
     (if resolve_app_type d = ''static'' \<or> resolve_app_type d = ''simple_website'' then
        (case copy_to_static a fs2 of
           (Some e, fs3) \<Rightarrow> (Inl (Raised e), fs3)
         | (None, fs3) \<Rightarrow> (Inr (config_of uuid now d), fs3))
      else if resolve_app_type d = ''react_app'' then
        (case build_react_app run (app_dir_of a) a fs2 of
           (Inl f, fs3) \<Rightarrow> (Inl f, fs3)
         | (Inr (out, static_dir), fs3) \<Rightarrow>
             (Inr ((config_of uuid now d)\<lparr>d_success := Some True, d_build_output := Some out,
                           d_static_dir := Some static_dir\<rparr>), fs3))
      else (Inr (config_of uuid now d), fs2))"
proof -
  obtain r fs1 where w: "write_source_tree a (resolve_files d) fs = (r, fs1)" by force
  with ws have r: "r = None" by simp
  from sv w have sv': "save_deployment_metadata a (config_of uuid now d) fs1 = Inr fs2" by simp
  show ?thesis
    unfolding deploy_app_def Let_def id w r using sv' by simp
qed

text \<open>
  Claim C2, as the code has it. \<^verbatim>\<open>deploy_app\<close> writes the source tree, then saves the
  deployment record, and only then publishes: for a compiled application it runs the
  build on the state that already holds the record and returns the build's failure as
  it is; for a static application it copies the source tree and returns the copy's
  failure. So once the source tree and the record are written, the record of this
  deploy is persisted at the end of the deploy, whether the build or the publication
  failed or not (for a compiled application, provided the build tool itself leaves the
  record file alone).
\<close>

theorem deploy_records_before_build:
  assumes id: "resolve_app_id uuid d = a"
    and ws: "fst (write_source_tree a (resolve_files d) fs) = None"
    and sv: "save_deployment_metadata a (config_of uuid now d)
               (snd (write_source_tree a (resolve_files d) fs)) = Inr fs2"
  shows "get_deployment_info a fs2 = Some (config_of uuid now d)
     \<and> (resolve_app_type d = ''react_app'' \<longrightarrow>
          (\<forall>f fs3. build_react_app run (app_dir_of a) a fs2 = (Inl f, fs3) \<longrightarrow>
             deploy_app run uuid now d fs = (Inl f, fs3)))
     \<and> (resolve_app_type d = ''static'' \<or> resolve_app_type d = ''simple_website'' \<longrightarrow>
          (\<forall>e fs3. copy_to_static a fs2 = (Some e, fs3) \<longrightarrow>
             deploy_app run uuid now d fs = (Inl (Raised e), fs3)))
     \<and> ((resolve_app_type d = ''react_app'' \<longrightarrow>
            (\<forall>c g. snd (run c g) (metadata_path a) = g (metadata_path a))) \<longrightarrow>
          get_deployment_info a (snd (deploy_app run uuid now d fs)) = Some (config_of uuid now d))"
proof -
  note dep = deploy_app_after_record [OF id ws sv, of run]
  have rec: "get_deployment_info a fs2 = Some (config_of uuid now d)"
    using sv by (rule saved_record)
  have m2: "fs2 (metadata_path a) = Some (FileE (Meta (config_of uuid now d)))"
    using sv by (auto simp: save_deployment_metadata_def dest!: write_file_Inr)
  have st: "snd (copy_to_static a fs2) (metadata_path a) = fs2 (metadata_path a)"
    by (rule copy_to_static_elsewhere) simp_all
  have last: "get_deployment_info a (snd (deploy_app run uuid now d fs)) = Some (config_of uuid now d)"
    if frame: "resolve_app_type d = ''react_app'' \<longrightarrow>
      (\<forall>c g. snd (run c g) (metadata_path a) = g (metadata_path a))"
  proof -
    have br: "snd (build_react_app run (app_dir_of a) a fs2) (metadata_path a) = fs2 (metadata_path a)"
      if "resolve_app_type d = ''react_app''"
    proof (rule build_react_app_elsewhere)
      show "\<forall>c g. snd (run c g) (metadata_path a) = g (metadata_path a)"
        using frame that by blast
    qed simp_all
    have fin: "snd (deploy_app run uuid now d fs) (metadata_path a) = fs2 (metadata_path a)"
      unfolding dep using st br
      by (auto split: prod.splits option.splits sum.splits)
    show ?thesis
      by (simp add: get_deployment_info_def fin m2)
  qed
  from rec last show ?thesis
    unfolding dep by simp
qed

theorem deploy_records_before_build_witness:
  "fst (deploy_app quiet_runner ''u'' ''t1'' hello_react initial_fs) = Inl BuildDirectoryNotFound
   \<and> get_deployment_info ''x1'' (snd (deploy_app quiet_runner ''u'' ''t1'' hello_react initial_fs))
       = Some (config_of ''u'' ''t1'' hello_react)"
proof -
  let ?fs1 = "snd (write_source_tree ''x1'' (resolve_files hello_react) initial_fs)"
  have id: "resolve_app_id ''u'' hello_react = ''x1''"
    by (simp add: evaluate)
  have ws: "fst (write_source_tree ''x1'' (resolve_files hello_react) initial_fs) = None"
    by (simp add: evaluate)
  have sv: "save_deployment_metadata ''x1'' (config_of ''u'' ''t1'' hello_react) ?fs1
      = Inr (?fs1(metadata_path ''x1'' \<mapsto> FileE (Meta (config_of ''u'' ''t1'' hello_react))))"
    by (simp add: evaluate)
  have frame: "\<forall>c g. snd (quiet_runner c g) (metadata_path ''x1'') = g (metadata_path ''x1'')"
    by (simp add: quiet_runner_def)
  have fails: "fst (deploy_app quiet_runner ''u'' ''t1'' hello_react initial_fs) = Inl BuildDirectoryNotFound"
    by (simp add: evaluate)
  from deploy_records_before_build [OF id ws sv, of quiet_runner] frame fails
  show ?thesis by simp
qed

text \<open>
  The claim as the specification words it fails: a compiled deploy whose install step
  exits with code 1 returns that failure, and its record is persisted all the same.
\<close>

theorem failed_build_leaves_record:
  "fst (deploy_app failing_runner ''u'' ''t1'' hello_react initial_fs) = Inl (InstallFailed ''npm ERR!'')
   \<and> get_deployment_info ''x1'' (snd (deploy_app failing_runner ''u'' ''t1'' hello_react initial_fs))
       = Some (config_of ''u'' ''t1'' hello_react)"
  by (simp add: evaluate)

section \<open>The Build Executor\<close>

lemma copy_build_output_publishes:
  assumes env: "\<not> is_file (fs [])" "\<not> is_file (fs [''static''])"
      "\<not> is_file (fs (static_dir_of a))"
    and src: "fs (app_dir_of a @ [name]) = Some DirE"
    and first: "name = ''build'' \<or> name = ''dist'' \<and> fs (app_dir_of a @ [''build'']) = None"
  shows "fst (copy_build_output (app_dir_of a) a out fs) = Inr (out, static_dir_of a)"
    and "snd (copy_build_output (app_dir_of a) a out fs) (static_dir_of a @ q) = fs (app_dir_of a @ name # q)"
proof -
  from env(3) obtain fs1 where r: "remove_existing (static_dir_of a) fs = Inr fs1"
    using remove_existing_succeeds by blast
  have same: "fs1 (app_dir_of a @ p) = fs (app_dir_of a @ p)" for p
    using remove_existing_elsewhere [OF r, of "app_dir_of a @ p"] by simp
  have e1: "\<not> is_file (fs1 [])" "\<not> is_file (fs1 [''static''])"
    using remove_existing_elsewhere [OF r, of "[]"] remove_existing_elsewhere [OF r, of "[''static'']"] env
    by (simp_all add: static_dir_of_def)
  have absent: "fs1 (static_dir_of a) = None"
    using r by (rule remove_existing_absent)
  from src same [of "[name]"] have src1: "fs1 (app_dir_of a @ [name]) = Some DirE" by simp
  from publish_copy [OF e1 absent src1] obtain fs2
    where c: "copytree (app_dir_of a @ [name]) (static_dir_of a) fs1 = Inr fs2" by blast
  have b1: "name = ''dist'' \<Longrightarrow> \<not> exists_path (app_dir_of a @ [''build'']) fs1"
    using first same [of "[''build'']"] by (auto simp: exists_path_def)
  have ex: "exists_path (app_dir_of a @ [name]) fs1"
    using src1 by (simp add: exists_path_def)
  have res: "copy_build_output (app_dir_of a) a out fs = (Inr (out, static_dir_of a), fs2)"
    using first r c ex b1 by (auto simp: copy_build_output_def Let_def)
  show "fst (copy_build_output (app_dir_of a) a out fs) = Inr (out, static_dir_of a)"
    by (simp add: res)
  show "snd (copy_build_output (app_dir_of a) a out fs) (static_dir_of a @ q) = fs (app_dir_of a @ name # q)"
    using copytree_below [OF c, of q] same [of "name # q"] by (simp add: res)
qed

lemma copy_build_output_obstructed:
  assumes env: "\<not> is_file (fs (static_dir_of a))"
    and above: "is_file (fs []) \<or> is_file (fs [''static''])"
    and src: "fs (app_dir_of a @ [name]) = Some DirE"
    and first: "name = ''build'' \<or> name = ''dist'' \<and> fs (app_dir_of a @ [''build'']) = None"
  shows "fst (copy_build_output (app_dir_of a) a out fs)
      = Inl (Raised (NotADirectoryError (static_dir_of a)))"
    and "snd (copy_build_output (app_dir_of a) a out fs) (static_dir_of a) = None"
proof -
  from env obtain fs1 where r: "remove_existing (static_dir_of a) fs = Inr fs1"
    using remove_existing_succeeds by blast
  have same: "fs1 (app_dir_of a @ p) = fs (app_dir_of a @ p)" for p
    using remove_existing_elsewhere [OF r, of "app_dir_of a @ p"] by simp
  have e1: "is_file (fs1 []) \<or> is_file (fs1 [''static''])"
    using remove_existing_elsewhere [OF r, of "[]"] remove_existing_elsewhere [OF r, of "[''static'']"]
      above
    by (simp add: static_dir_of_def)
  have absent: "fs1 (static_dir_of a) = None"
    using r by (rule remove_existing_absent)
  from src same [of "[name]"] have src1: "fs1 (app_dir_of a @ [name]) = Some DirE" by simp
  have "list_ex (\<lambda>q. is_file (fs1 q)) (prefixes (static_dir_of a))"
    using e1 by (auto simp: list_ex_iff static_dir_of_def)
  then have c: "copytree (app_dir_of a @ [name]) (static_dir_of a) fs1
      = Inl (NotADirectoryError (static_dir_of a))"
    using src1 absent by (simp add: copytree_def)
  have b1: "name = ''dist'' \<Longrightarrow> \<not> exists_path (app_dir_of a @ [''build'']) fs1"
    using first same [of "[''build'']"] by (auto simp: exists_path_def)
  have ex: "exists_path (app_dir_of a @ [name]) fs1"
    using src1 by (simp add: exists_path_def)
  have res: "copy_build_output (app_dir_of a) a out fs
      = (Inl (Raised (NotADirectoryError (static_dir_of a))), fs1)"
    using first r c ex b1 by (auto simp: copy_build_output_def Let_def)
  show "fst (copy_build_output (app_dir_of a) a out fs)
      = Inl (Raised (NotADirectoryError (static_dir_of a)))"
    by (simp add: res)
  show "snd (copy_build_output (app_dir_of a) a out fs) (static_dir_of a) = None"
    using absent by (simp add: res)
qed

lemma copy_build_output_unremovable:
  assumes "is_file (fs (static_dir_of a))"
  shows "copy_build_output app_dir a out fs
      = (Inl (Raised (NotADirectoryError (static_dir_of a))), fs)"
proof -
  from assms obtain c where "fs (static_dir_of a) = Some (FileE c)"
    by (cases "fs (static_dir_of a)" rule: is_file.cases) simp_all
  then have "remove_existing (static_dir_of a) fs = Inl (NotADirectoryError (static_dir_of a))"
    by (simp add: remove_existing_def exists_path_def rmtree_def)
  then show ?thesis by (simp add: copy_build_output_def)
qed

lemma copy_build_output_none:
  assumes env: "\<not> is_file (fs (static_dir_of a))"
    and "fs (app_dir_of a @ [''build'']) = None" "fs (app_dir_of a @ [''dist'']) = None"
  shows "fst (copy_build_output (app_dir_of a) a out fs) = Inl BuildDirectoryNotFound"
    and "snd (copy_build_output (app_dir_of a) a out fs) (static_dir_of a) = None"
proof -
  from env obtain fs1 where r: "remove_existing (static_dir_of a) fs = Inr fs1"
    using remove_existing_succeeds by blast
  have same: "fs1 (app_dir_of a @ p) = fs (app_dir_of a @ p)" for p
    using remove_existing_elsewhere [OF r, of "app_dir_of a @ p"] by simp
  have res: "copy_build_output (app_dir_of a) a out fs = (Inl BuildDirectoryNotFound, fs1)"
    using assms(2,3) same [of "[''build'']"] same [of "[''dist'']"] r
    by (simp add: copy_build_output_def Let_def exists_path_def)
  show "fst (copy_build_output (app_dir_of a) a out fs) = Inl BuildDirectoryNotFound"
    by (simp add: res)
  show "snd (copy_build_output (app_dir_of a) a out fs) (static_dir_of a) = None"
    using remove_existing_absent [OF r] by (simp add: res)
qed

lemma copy_build_output_blocked:
  assumes env: "\<not> is_file (fs (static_dir_of a))"
    and src: "fs (app_dir_of a @ [name]) = Some (FileE c)"
    and first: "name = ''build'' \<or> name = ''dist'' \<and> fs (app_dir_of a @ [''build'']) = None"
  shows "fst (copy_build_output (app_dir_of a) a out fs)
      = Inl (Raised (NotADirectoryError (app_dir_of a @ [name])))"
    and "snd (copy_build_output (app_dir_of a) a out fs) (static_dir_of a) = None"
proof -
  from env obtain fs1 where r: "remove_existing (static_dir_of a) fs = Inr fs1"
    using remove_existing_succeeds by blast
  have same: "fs1 (app_dir_of a @ p) = fs (app_dir_of a @ p)" for p
    using remove_existing_elsewhere [OF r, of "app_dir_of a @ p"] by simp
  from src same [of "[name]"] have src1: "fs1 (app_dir_of a @ [name]) = Some (FileE c)" by simp
  then have c: "copytree (app_dir_of a @ [name]) (static_dir_of a) fs1
      = Inl (NotADirectoryError (app_dir_of a @ [name]))"
    by (simp add: copytree_def)
  have b1: "name = ''dist'' \<Longrightarrow> \<not> exists_path (app_dir_of a @ [''build'']) fs1"
    using first same [of "[''build'']"] by (auto simp: exists_path_def)
  have ex: "exists_path (app_dir_of a @ [name]) fs1"
    using src1 by (simp add: exists_path_def)
  have res: "copy_build_output (app_dir_of a) a out fs
      = (Inl (Raised (NotADirectoryError (app_dir_of a @ [name]))), fs1)"
    using first r c ex b1 by (auto simp: copy_build_output_def Let_def)
  show "fst (copy_build_output (app_dir_of a) a out fs)
      = Inl (Raised (NotADirectoryError (app_dir_of a @ [name])))"
    by (simp add: res)
  show "snd (copy_build_output (app_dir_of a) a out fs) (static_dir_of a) = None"
    using remove_existing_absent [OF r] by (simp add: res)
qed

text \<open>
  Claim C8, as the code has it. \<^verbatim>\<open>_build_react_app\<close> runs \<^verbatim>\<open>npm install\<close> and then, on
  the state the install left, \<^verbatim>\<open>npm run build\<close>, both in the application directory with
  a timeout of 300 seconds. A step that runs into the timeout gives
  \<^verbatim>\<open>Build process timed out\<close> (one that cannot be started gives its exception); a step
  that exits with a code other than 0 gives the failure that carries its standard error
  (\<^verbatim>\<open>Failed to install dependencies\<close>, \<^verbatim>\<open>Failed to build app\<close>), and after a failed
  install the build step's outcome plays no part. When both exit with code 0, the old
  published tree is removed and the candidates \<^verbatim>\<open>build\<close> and \<^verbatim>\<open>dist\<close> are looked up in
  this order, \<^verbatim>\<open>dist\<close> only if nothing exists at \<^verbatim>\<open>build\<close>:

    \<^item> the first that exists is published if it is a directory: the result is the
      success with the build step's standard output, and the published tree is a copy
      of that directory;

    \<^item> if the first that exists is a regular file, \<^verbatim>\<open>copytree\<close> raises on it: that error
      is the result, the other candidate is not tried, and no published tree exists
      afterwards;

    \<^item> if neither exists the result is \<^verbatim>\<open>Build directory not found\<close>, and no published
      tree exists afterwards.

  A regular file in the way of the published tree makes the call that meets it raise:
  at the published path itself the removal, and then nothing is changed; at the base
  directory or at \<^verbatim>\<open>static\<close> the copy of a candidate directory, and then no published
  tree exists afterwards.
\<close>

theorem build_react_app_steps:
  assumes i: "run \<lparr>argv = [''npm'', ''install''], cwd = app_dir_of a, timeout = 300\<rparr> fs = (oi, fs1)"
    and b: "run \<lparr>argv = [''npm'', ''run'', ''build''], cwd = app_dir_of a, timeout = 300\<rparr> fs1
              = (ob, fs2)"
  shows "(oi = TimeoutExpired \<longrightarrow>
            build_react_app run (app_dir_of a) a fs = (Inl BuildTimedOut, fs1))
     \<and> (\<forall>e. oi = Failed e \<longrightarrow>
            build_react_app run (app_dir_of a) a fs = (Inl (Raised e), fs1))
     \<and> (\<forall>rc out err. oi = Completed rc out err \<and> rc \<noteq> 0 \<longrightarrow>
            build_react_app run (app_dir_of a) a fs = (Inl (InstallFailed err), fs1))
     \<and> (\<forall>out err. oi = Completed 0 out err \<longrightarrow>
          (ob = TimeoutExpired \<longrightarrow>
             build_react_app run (app_dir_of a) a fs = (Inl BuildTimedOut, fs2))
          \<and> (\<forall>e. ob = Failed e \<longrightarrow>
             build_react_app run (app_dir_of a) a fs = (Inl (Raised e), fs2))
          \<and> (\<forall>rc out2 err2. ob = Completed rc out2 err2 \<and> rc \<noteq> 0 \<longrightarrow>
             build_react_app run (app_dir_of a) a fs = (Inl (BuildFailed err2), fs2))
          \<and> (\<forall>out2 err2. ob = Completed 0 out2 err2 \<longrightarrow>
             (is_file (fs2 (static_dir_of a)) \<longrightarrow>
                build_react_app run (app_dir_of a) a fs
                  = (Inl (Raised (NotADirectoryError (static_dir_of a))), fs2))
             \<and> (\<not> is_file (fs2 (static_dir_of a)) \<longrightarrow>
                (\<forall>name. fs2 (app_dir_of a @ [name]) = Some DirE \<and>
                    (name = ''build'' \<or>
                     name = ''dist'' \<and> fs2 (app_dir_of a @ [''build'']) = None) \<longrightarrow>
                   (\<not> is_file (fs2 []) \<and> \<not> is_file (fs2 [''static'']) \<longrightarrow>
                      fst (build_react_app run (app_dir_of a) a fs) = Inr (out2, static_dir_of a) \<and>
                      (\<forall>q. snd (build_react_app run (app_dir_of a) a fs) (static_dir_of a @ q)
                            = fs2 (app_dir_of a @ name # q)))
                 \<and> (is_file (fs2 []) \<or> is_file (fs2 [''static'']) \<longrightarrow>
                      fst (build_react_app run (app_dir_of a) a fs)
                        = Inl (Raised (NotADirectoryError (static_dir_of a))) \<and>
                      snd (build_react_app run (app_dir_of a) a fs) (static_dir_of a) = None))
              \<and> (\<forall>name c. fs2 (app_dir_of a @ [name]) = Some (FileE c) \<and>
                    (name = ''build'' \<or>
                     name = ''dist'' \<and> fs2 (app_dir_of a @ [''build'']) = None) \<longrightarrow>
                   fst (build_react_app run (app_dir_of a) a fs)
                     = Inl (Raised (NotADirectoryError (app_dir_of a @ [name]))) \<and>
                   snd (build_react_app run (app_dir_of a) a fs) (static_dir_of a) = None)
              \<and> (fs2 (app_dir_of a @ [''build'']) = None \<and>
                 fs2 (app_dir_of a @ [''dist'']) = None \<longrightarrow>
                   fst (build_react_app run (app_dir_of a) a fs) = Inl BuildDirectoryNotFound \<and>
                   snd (build_react_app run (app_dir_of a) a fs) (static_dir_of a) = None))))"
proof -
  have i': "run (install_command (app_dir_of a)) fs = (oi, fs1)"
    using i by (simp add: install_command_def)
  have b': "run (build_command (app_dir_of a)) fs1 = (ob, fs2)"
    using b by (simp add: build_command_def)
  have t1: "oi = TimeoutExpired \<longrightarrow>
      build_react_app run (app_dir_of a) a fs = (Inl BuildTimedOut, fs1)"
    by (simp add: build_react_app_def i')
  have r1: "\<forall>e. oi = Failed e \<longrightarrow>
      build_react_app run (app_dir_of a) a fs = (Inl (Raised e), fs1)"
    by (simp add: build_react_app_def i')
  have f1: "\<forall>rc out err. oi = Completed rc out err \<and> rc \<noteq> 0 \<longrightarrow>
      build_react_app run (app_dir_of a) a fs = (Inl (InstallFailed err), fs1)"
    by (simp add: build_react_app_def i')
  have pub: "(is_file (fs2 (static_dir_of a)) \<longrightarrow>
         copy_build_output (app_dir_of a) a out2 fs2
           = (Inl (Raised (NotADirectoryError (static_dir_of a))), fs2))
      \<and> (\<not> is_file (fs2 (static_dir_of a)) \<longrightarrow>
         (\<forall>name. fs2 (app_dir_of a @ [name]) = Some DirE \<and>
             (name = ''build'' \<or>
              name = ''dist'' \<and> fs2 (app_dir_of a @ [''build'']) = None) \<longrightarrow>
            (\<not> is_file (fs2 []) \<and> \<not> is_file (fs2 [''static'']) \<longrightarrow>
               fst (copy_build_output (app_dir_of a) a out2 fs2) = Inr (out2, static_dir_of a) \<and>
               (\<forall>q. snd (copy_build_output (app_dir_of a) a out2 fs2) (static_dir_of a @ q)
                     = fs2 (app_dir_of a @ name # q)))
          \<and> (is_file (fs2 []) \<or> is_file (fs2 [''static'']) \<longrightarrow>
               fst (copy_build_output (app_dir_of a) a out2 fs2)
                 = Inl (Raised (NotADirectoryError (static_dir_of a))) \<and>
               snd (copy_build_output (app_dir_of a) a out2 fs2) (static_dir_of a) = None))
       \<and> (\<forall>name c. fs2 (app_dir_of a @ [name]) = Some (FileE c) \<and>
             (name = ''build'' \<or>
              name = ''dist'' \<and> fs2 (app_dir_of a @ [''build'']) = None) \<longrightarrow>
            fst (copy_build_output (app_dir_of a) a out2 fs2)
              = Inl (Raised (NotADirectoryError (app_dir_of a @ [name]))) \<and>
            snd (copy_build_output (app_dir_of a) a out2 fs2) (static_dir_of a) = None)
       \<and> (fs2 (app_dir_of a @ [''build'']) = None \<and>
          fs2 (app_dir_of a @ [''dist'']) = None \<longrightarrow>
            fst (copy_build_output (app_dir_of a) a out2 fs2) = Inl BuildDirectoryNotFound \<and>
            snd (copy_build_output (app_dir_of a) a out2 fs2) (static_dir_of a) = None))"
    for out2
  proof (intro conjI impI allI)
    show "copy_build_output (app_dir_of a) a out2 fs2
        = (Inl (Raised (NotADirectoryError (static_dir_of a))), fs2)"
      if "is_file (fs2 (static_dir_of a))"
      using that by (rule copy_build_output_unremovable)
  next
    fix name
    assume env: "\<not> is_file (fs2 (static_dir_of a))"
      and src: "fs2 (app_dir_of a @ [name]) = Some DirE \<and>
        (name = ''build'' \<or> name = ''dist'' \<and> fs2 (app_dir_of a @ [''build'']) = None)"
    {
      assume free: "\<not> is_file (fs2 []) \<and> \<not> is_file (fs2 [''static''])"
      show "fst (copy_build_output (app_dir_of a) a out2 fs2) = Inr (out2, static_dir_of a)"
        using copy_build_output_publishes(1) [of fs2 a name out2] env src free by blast
      show "snd (copy_build_output (app_dir_of a) a out2 fs2) (static_dir_of a @ q)
          = fs2 (app_dir_of a @ name # q)" for q
        using copy_build_output_publishes(2) [of fs2 a name out2 q] env src free by blast
    }
    {
      assume above: "is_file (fs2 []) \<or> is_file (fs2 [''static''])"
      show "fst (copy_build_output (app_dir_of a) a out2 fs2)
          = Inl (Raised (NotADirectoryError (static_dir_of a)))"
        using copy_build_output_obstructed(1) [of fs2 a name out2] env src above by blast
      show "snd (copy_build_output (app_dir_of a) a out2 fs2) (static_dir_of a) = None"
        using copy_build_output_obstructed(2) [of fs2 a name out2] env src above by blast
    }
  next
    fix name c
    assume env: "\<not> is_file (fs2 (static_dir_of a))"
      and src: "fs2 (app_dir_of a @ [name]) = Some (FileE c) \<and>
        (name = ''build'' \<or> name = ''dist'' \<and> fs2 (app_dir_of a @ [''build'']) = None)"
    show "fst (copy_build_output (app_dir_of a) a out2 fs2)
        = Inl (Raised (NotADirectoryError (app_dir_of a @ [name])))"
      using copy_build_output_blocked(1) [of fs2 a name c out2] env src by blast
    show "snd (copy_build_output (app_dir_of a) a out2 fs2) (static_dir_of a) = None"
      using copy_build_output_blocked(2) [of fs2 a name c out2] env src by blast
  next
    assume env: "\<not> is_file (fs2 (static_dir_of a))"
      and none: "fs2 (app_dir_of a @ [''build'']) = None \<and> fs2 (app_dir_of a @ [''dist'']) = None"
    show "fst (copy_build_output (app_dir_of a) a out2 fs2) = Inl BuildDirectoryNotFound"
      using copy_build_output_none(1) [of fs2 a out2] env none by simp
    show "snd (copy_build_output (app_dir_of a) a out2 fs2) (static_dir_of a) = None"
      using copy_build_output_none(2) [of fs2 a out2] env none by simp
  qed
  have inner: "(ob = TimeoutExpired \<longrightarrow>
         build_react_app run (app_dir_of a) a fs = (Inl BuildTimedOut, fs2))
      \<and> (\<forall>e. ob = Failed e \<longrightarrow>
         build_react_app run (app_dir_of a) a fs = (Inl (Raised e), fs2))
      \<and> (\<forall>rc out2 err2. ob = Completed rc out2 err2 \<and> rc \<noteq> 0 \<longrightarrow>
         build_react_app run (app_dir_of a) a fs = (Inl (BuildFailed err2), fs2))
      \<and> (\<forall>out2 err2. ob = Completed 0 out2 err2 \<longrightarrow>
         (is_file (fs2 (static_dir_of a)) \<longrightarrow>
            build_react_app run (app_dir_of a) a fs
              = (Inl (Raised (NotADirectoryError (static_dir_of a))), fs2))
         \<and> (\<not> is_file (fs2 (static_dir_of a)) \<longrightarrow>
            (\<forall>name. fs2 (app_dir_of a @ [name]) = Some DirE \<and>
                (name = ''build'' \<or>
                 name = ''dist'' \<and> fs2 (app_dir_of a @ [''build'']) = None) \<longrightarrow>
               (\<not> is_file (fs2 []) \<and> \<not> is_file (fs2 [''static'']) \<longrightarrow>
                  fst (build_react_app run (app_dir_of a) a fs) = Inr (out2, static_dir_of a) \<and>
                  (\<forall>q. snd (build_react_app run (app_dir_of a) a fs) (static_dir_of a @ q)
                        = fs2 (app_dir_of a @ name # q)))
             \<and> (is_file (fs2 []) \<or> is_file (fs2 [''static'']) \<longrightarrow>
                  fst (build_react_app run (app_dir_of a) a fs)
                    = Inl (Raised (NotADirectoryError (static_dir_of a))) \<and>
                  snd (build_react_app run (app_dir_of a) a fs) (static_dir_of a) = None))
          \<and> (\<forall>name c. fs2 (app_dir_of a @ [name]) = Some (FileE c) \<and>
                (name = ''build'' \<or>
                 name = ''dist'' \<and> fs2 (app_dir_of a @ [''build'']) = None) \<longrightarrow>
               fst (build_react_app run (app_dir_of a) a fs)
                 = Inl (Raised (NotADirectoryError (app_dir_of a @ [name]))) \<and>
               snd (build_react_app run (app_dir_of a) a fs) (static_dir_of a) = None)
          \<and> (fs2 (app_dir_of a @ [''build'']) = None \<and>
             fs2 (app_dir_of a @ [''dist'']) = None \<longrightarrow>
               fst (build_react_app run (app_dir_of a) a fs) = Inl BuildDirectoryNotFound \<and>
               snd (build_react_app run (app_dir_of a) a fs) (static_dir_of a) = None)))"
    if oi: "oi = Completed 0 out err" for out err
  proof (intro conjI)
    show "ob = TimeoutExpired \<longrightarrow>
        build_react_app run (app_dir_of a) a fs = (Inl BuildTimedOut, fs2)"
      by (simp add: build_react_app_def i' b' oi)
    show "\<forall>e. ob = Failed e \<longrightarrow>
        build_react_app run (app_dir_of a) a fs = (Inl (Raised e), fs2)"
      by (simp add: build_react_app_def i' b' oi)
    show "\<forall>rc out2 err2. ob = Completed rc out2 err2 \<and> rc \<noteq> 0 \<longrightarrow>
        build_react_app run (app_dir_of a) a fs = (Inl (BuildFailed err2), fs2)"
      by (simp add: build_react_app_def i' b' oi)
    show "\<forall>out2 err2. ob = Completed 0 out2 err2 \<longrightarrow>
        (is_file (fs2 (static_dir_of a)) \<longrightarrow>
           build_react_app run (app_dir_of a) a fs
             = (Inl (Raised (NotADirectoryError (static_dir_of a))), fs2))
        \<and> (\<not> is_file (fs2 (static_dir_of a)) \<longrightarrow>
           (\<forall>name. fs2 (app_dir_of a @ [name]) = Some DirE \<and>
               (name = ''build'' \<or>
                name = ''dist'' \<and> fs2 (app_dir_of a @ [''build'']) = None) \<longrightarrow>
              (\<not> is_file (fs2 []) \<and> \<not> is_file (fs2 [''static'']) \<longrightarrow>
                 fst (build_react_app run (app_dir_of a) a fs) = Inr (out2, static_dir_of a) \<and>
                 (\<forall>q. snd (build_react_app run (app_dir_of a) a fs) (static_dir_of a @ q)
                       = fs2 (app_dir_of a @ name # q)))
            \<and> (is_file (fs2 []) \<or> is_file (fs2 [''static'']) \<longrightarrow>
                 fst (build_react_app run (app_dir_of a) a fs)
                   = Inl (Raised (NotADirectoryError (static_dir_of a))) \<and>
                 snd (build_react_app run (app_dir_of a) a fs) (static_dir_of a) = None))
         \<and> (\<forall>name c. fs2 (app_dir_of a @ [name]) = Some (FileE c) \<and>
               (name = ''build'' \<or>
                name = ''dist'' \<and> fs2 (app_dir_of a @ [''build'']) = None) \<longrightarrow>
              fst (build_react_app run (app_dir_of a) a fs)
                = Inl (Raised (NotADirectoryError (app_dir_of a @ [name]))) \<and>
              snd (build_react_app run (app_dir_of a) a fs) (static_dir_of a) = None)
         \<and> (fs2 (app_dir_of a @ [''build'']) = None \<and>
            fs2 (app_dir_of a @ [''dist'']) = None \<longrightarrow>
              fst (build_react_app run (app_dir_of a) a fs) = Inl BuildDirectoryNotFound \<and>
              snd (build_react_app run (app_dir_of a) a fs) (static_dir_of a) = None))"
    proof (intro allI impI)
      fix out2 err2
      assume ob: "ob = Completed 0 out2 err2"
      have eq: "build_react_app run (app_dir_of a) a fs
          = copy_build_output (app_dir_of a) a out2 fs2"
        by (simp add: build_react_app_def i' b' oi ob)
      show "(is_file (fs2 (static_dir_of a)) \<longrightarrow>
           build_react_app run (app_dir_of a) a fs
             = (Inl (Raised (NotADirectoryError (static_dir_of a))), fs2))
        \<and> (\<not> is_file (fs2 (static_dir_of a)) \<longrightarrow>
           (\<forall>name. fs2 (app_dir_of a @ [name]) = Some DirE \<and>
               (name = ''build'' \<or>
                name = ''dist'' \<and> fs2 (app_dir_of a @ [''build'']) = None) \<longrightarrow>
              (\<not> is_file (fs2 []) \<and> \<not> is_file (fs2 [''static'']) \<longrightarrow>
                 fst (build_react_app run (app_dir_of a) a fs) = Inr (out2, static_dir_of a) \<and>
                 (\<forall>q. snd (build_react_app run (app_dir_of a) a fs) (static_dir_of a @ q)
                       = fs2 (app_dir_of a @ name # q)))
            \<and> (is_file (fs2 []) \<or> is_file (fs2 [''static'']) \<longrightarrow>
                 fst (build_react_app run (app_dir_of a) a fs)
                   = Inl (Raised (NotADirectoryError (static_dir_of a))) \<and>
                 snd (build_react_app run (app_dir_of a) a fs) (static_dir_of a) = None))
         \<and> (\<forall>name c. fs2 (app_dir_of a @ [name]) = Some (FileE c) \<and>
               (name = ''build'' \<or>
                name = ''dist'' \<and> fs2 (app_dir_of a @ [''build'']) = None) \<longrightarrow>
              fst (build_react_app run (app_dir_of a) a fs)
                = Inl (Raised (NotADirectoryError (app_dir_of a @ [name]))) \<and>
              snd (build_react_app run (app_dir_of a) a fs) (static_dir_of a) = None)
         \<and> (fs2 (app_dir_of a @ [''build'']) = None \<and>
            fs2 (app_dir_of a @ [''dist'']) = None \<longrightarrow>
              fst (build_react_app run (app_dir_of a) a fs) = Inl BuildDirectoryNotFound \<and>
              snd (build_react_app run (app_dir_of a) a fs) (static_dir_of a) = None))"
        unfolding eq by (rule pub)
    qed
  qed
  have rest: "\<forall>out err. oi = Completed 0 out err \<longrightarrow>
      (ob = TimeoutExpired \<longrightarrow>
         build_react_app run (app_dir_of a) a fs = (Inl BuildTimedOut, fs2))
      \<and> (\<forall>e. ob = Failed e \<longrightarrow>
         build_react_app run (app_dir_of a) a fs = (Inl (Raised e), fs2))
      \<and> (\<forall>rc out2 err2. ob = Completed rc out2 err2 \<and> rc \<noteq> 0 \<longrightarrow>
         build_react_app run (app_dir_of a) a fs = (Inl (BuildFailed err2), fs2))
      \<and> (\<forall>out2 err2. ob = Completed 0 out2 err2 \<longrightarrow>
         (is_file (fs2 (static_dir_of a)) \<longrightarrow>
            build_react_app run (app_dir_of a) a fs
              = (Inl (Raised (NotADirectoryError (static_dir_of a))), fs2))
         \<and> (\<not> is_file (fs2 (static_dir_of a)) \<longrightarrow>
            (\<forall>name. fs2 (app_dir_of a @ [name]) = Some DirE \<and>
                (name = ''build'' \<or>
                 name = ''dist'' \<and> fs2 (app_dir_of a @ [''build'']) = None) \<longrightarrow>
               (\<not> is_file (fs2 []) \<and> \<not> is_file (fs2 [''static'']) \<longrightarrow>
                  fst (build_react_app run (app_dir_of a) a fs) = Inr (out2, static_dir_of a) \<and>
                  (\<forall>q. snd (build_react_app run (app_dir_of a) a fs) (static_dir_of a @ q)
                        = fs2 (app_dir_of a @ name # q)))
             \<and> (is_file (fs2 []) \<or> is_file (fs2 [''static'']) \<longrightarrow>
                  fst (build_react_app run (app_dir_of a) a fs)
                    = Inl (Raised (NotADirectoryError (static_dir_of a))) \<and>
                  snd (build_react_app run (app_dir_of a) a fs) (static_dir_of a) = None))
          \<and> (\<forall>name c. fs2 (app_dir_of a @ [name]) = Some (FileE c) \<and>
                (name = ''build'' \<or>
                 name = ''dist'' \<and> fs2 (app_dir_of a @ [''build'']) = None) \<longrightarrow>
               fst (build_react_app run (app_dir_of a) a fs)
                 = Inl (Raised (NotADirectoryError (app_dir_of a @ [name]))) \<and>
               snd (build_react_app run (app_dir_of a) a fs) (static_dir_of a) = None)
          \<and> (fs2 (app_dir_of a @ [''build'']) = None \<and>
             fs2 (app_dir_of a @ [''dist'']) = None \<longrightarrow>
               fst (build_react_app run (app_dir_of a) a fs) = Inl BuildDirectoryNotFound \<and>
               snd (build_react_app run (app_dir_of a) a fs) (static_dir_of a) = None)))"
    by (intro allI impI) (rule inner)
  show ?thesis
    by (rule conjI [OF t1 conjI [OF r1 conjI [OF f1 rest]]])
qed

theorem build_react_app_steps_witness:
  "fst (build_react_app vite_runner (app_dir_of ''x1'') ''x1''
          (snd (write_source_tree ''x1'' (resolve_files hello_react) initial_fs)))
     = Inr (''built'', [''static'', ''x1''])
   \<and> snd (build_react_app vite_runner (app_dir_of ''x1'') ''x1''
          (snd (write_source_tree ''x1'' (resolve_files hello_react) initial_fs)))
        [''static'', ''x1'', ''index.html'']
     = Some (FileE (Text ''<div id=root>''))"
proof -
  define fs0 where "fs0 = snd (write_source_tree ''x1'' (resolve_files hello_react) initial_fs)"
  define fs2 where "fs2 = fs0(app_dir_of ''x1'' @ [''dist''] \<mapsto> DirE,
                 app_dir_of ''x1'' @ [''dist'', ''index.html''] \<mapsto> FileE (Text ''<div id=root>''))"
  have i: "vite_runner \<lparr>argv = [''npm'', ''install''], cwd = app_dir_of ''x1'', timeout = 300\<rparr> fs0
      = (Completed 0 ''installed'' [], fs0)"
    by (simp add: vite_runner_def)
  have b: "vite_runner \<lparr>argv = [''npm'', ''run'', ''build''], cwd = app_dir_of ''x1'', timeout = 300\<rparr> fs0
      = (Completed 0 ''built'' [], fs2)"
    by (simp add: vite_runner_def fs2_def)
  have env: "\<not> is_file (fs2 [])" "\<not> is_file (fs2 [''static''])"
      "\<not> is_file (fs2 (static_dir_of ''x1''))"
    by (simp_all add: fs2_def fs0_def evaluate)
  have nb: "fs2 (app_dir_of ''x1'' @ [''build'']) = None"
    by (simp add: fs2_def fs0_def evaluate)
  have d: "fs2 (app_dir_of ''x1'' @ [''dist'']) = Some DirE"
    by (simp add: fs2_def)
  have f: "fs2 (app_dir_of ''x1'' @ ''dist'' # [''index.html'']) = Some (FileE (Text ''<div id=root>''))"
    by (simp add: fs2_def)
  note c8 = build_react_app_steps [of vite_runner "''x1''" fs0 "Completed 0 ''installed'' []" fs0
      "Completed 0 ''built'' []" fs2, OF i b]
  have "fst (build_react_app vite_runner (app_dir_of ''x1'') ''x1'' fs0)
        = Inr (''built'', static_dir_of ''x1'')
      \<and> (\<forall>q. snd (build_react_app vite_runner (app_dir_of ''x1'') ''x1'' fs0)
              (static_dir_of ''x1'' @ q) = fs2 (app_dir_of ''x1'' @ ''dist'' # q))"
    using c8 env nb d by auto
  then have "fst (build_react_app vite_runner (app_dir_of ''x1'') ''x1'' fs0)
        = Inr (''built'', static_dir_of ''x1'')
      \<and> snd (build_react_app vite_runner (app_dir_of ''x1'') ''x1'' fs0)
              (static_dir_of ''x1'' @ [''index.html'']) = Some (FileE (Text ''<div id=root>''))"
    using f by simp
  then show ?thesis
    by (simp add: fs0_def static_dir_of_def)
qed

text \<open>
  The claim as the specification words it fails when the first candidate that exists is
  no directory. A compiled application whose files hold a script named \<^verbatim>\<open>build\<close> and a
  bundle under \<^verbatim>\<open>dist\<close> is deployed with a build tool whose two steps exit with code 0:
  \<^verbatim>\<open>build\<close> exists, so \<^verbatim>\<open>copytree\<close> is called on it and raises; the deploy fails with
  that error, which is none of the failures the claim lists, the directory \<^verbatim>\<open>dist\<close> is
  not tried, and nothing is published.
\<close>

theorem build_file_blocks_publishing:
  "fst (deploy_app quiet_runner ''u'' ''t1'' build_script_react initial_fs)
     = Inl (Raised (NotADirectoryError [''apps'', ''x1'', ''build'']))
   \<and> snd (deploy_app quiet_runner ''u'' ''t1'' build_script_react initial_fs)
        [''apps'', ''x1'', ''build''] = Some (FileE (Text ''npm run build''))
   \<and> snd (deploy_app quiet_runner ''u'' ''t1'' build_script_react initial_fs)
        [''apps'', ''x1'', ''dist''] = Some DirE
   \<and> snd (deploy_app quiet_runner ''u'' ''t1'' build_script_react initial_fs)
        [''apps'', ''x1'', ''dist'', ''index.html''] = Some (FileE (Text ''<div id=root>''))
   \<and> snd (deploy_app quiet_runner ''u'' ''t1'' build_script_react initial_fs)
        [''static'', ''x1''] = None"
  by (simp add: evaluate)

section \<open>Deploying twice\<close>

lemma strict_prefix_butlast:
  "p \<noteq> [] \<Longrightarrow> strict_prefix q p \<longleftrightarrow> prefix q (butlast p)"
proof -
  assume "p \<noteq> []"
  then obtain ys y where p: "p = ys @ [y]" by (metis append_butlast_last_id)
  show ?thesis
    unfolding p strict_prefix_def by (auto dest: prefix_length_le)
qed

lemma mapping_tree_snoc:
  assumes "p \<noteq> []"
  shows "mapping_tree (done @ [(p, c)]) q =
     (if q = p \<and> mapping_tree done p \<noteq> Some DirE then Some (FileE (Text c))
      else if prefix q (butlast p) then Some DirE
      else mapping_tree done q)"
  using assms strict_prefix_butlast [OF assms, of q]
  by (auto simp: mapping_tree_def dest: prefix_length_le)

lemma write_step_tree:
  assumes mk: "makedirs (app_dir @ butlast p) fs = Inr fs1"
    and wr: "write_file (app_dir @ p) (Text c) fs1 = Inr fs2"
    and inv: "\<forall>q. fs (app_dir @ q) = mapping_tree done q"
  shows "fs2 (app_dir @ q) = mapping_tree (done @ [(p, c)]) q"
proof -
  have fs1: "fs1 x = (if prefix x (app_dir @ butlast p) then Some DirE else fs x)" for x
    using makedirs_Inr [OF mk] by simp
  have fs2: "fs2 = fs1(app_dir @ p \<mapsto> FileE (Text c))"
    using wr by (rule write_file_Inr)
  from wr have nd: "fs1 (app_dir @ p) \<noteq> Some DirE"
    by (auto simp: write_file_def)
  have ne: "p \<noteq> []"
  proof
    assume "p = []"
    then have "fs1 (app_dir @ p) = Some DirE" by (simp add: fs1)
    with nd show False by simp
  qed
  have np: "\<not> prefix p (butlast p)"
    using ne by (metis append_butlast_last_id prefix_length_le length_append_singleton
        not_less_eq_eq order_refl)
  from nd np inv have nd': "mapping_tree done p \<noteq> Some DirE"
    by (simp add: fs1)
  show ?thesis
    unfolding mapping_tree_snoc [OF ne] fs2 using nd' inv
    by (simp add: fs1)
qed

lemma write_files_tree:
  assumes "write_files app_dir files fs = (None, fs')"
    and "\<forall>q. fs (app_dir @ q) = mapping_tree done q"
  shows "fs' (app_dir @ q) = mapping_tree (done @ files) q"
  using assms
proof (induction files arbitrary: fs "done")
  case Nil
  then show ?case by simp
next
  case (Cons pc rest)
  obtain p c where pc: "pc = (p, c)" by (cases pc)
  from Cons.prems(1) obtain fs1 where mk: "makedirs (app_dir @ butlast p) fs = Inr fs1"
    by (auto simp: pc split: sum.splits)
  from Cons.prems(1) mk obtain fs2 where wr: "write_file (app_dir @ p) (Text c) fs1 = Inr fs2"
    by (auto simp: pc split: sum.splits)
  from Cons.prems(1) mk wr have rest: "write_files app_dir rest fs2 = (None, fs')"
    by (simp add: pc)
  have "\<forall>q. fs2 (app_dir @ q) = mapping_tree (done @ [(p, c)]) q"
    using write_step_tree [OF mk wr Cons.prems(2)] by simp
  from Cons.IH [OF rest this] show ?case by (simp add: pc)
qed

lemma write_files_keeps_dirs:
  "write_files app_dir files fs = (r, fs') \<Longrightarrow> fs x = Some DirE \<Longrightarrow> fs' x = Some DirE"
proof (induction files arbitrary: fs)
  case Nil
  then show ?case by simp
next
  case (Cons pc rest)
  obtain p c where pc: "pc = (p, c)" by (cases pc)
  show ?case
  proof (cases "makedirs (app_dir @ butlast p) fs")
    case (Inl e)
    with Cons.prems show ?thesis by (simp add: pc)
  next
    case (Inr fs1)
    have x1: "fs1 x = Some DirE"
      using makedirs_Inr [OF Inr] Cons.prems(2) by simp
    show ?thesis
    proof (cases "write_file (app_dir @ p) (Text c) fs1")
      case (Inl e)
      with Cons.prems Inr x1 show ?thesis by (simp add: pc)
    next
      case fs2: (Inr fs2)
      then have "app_dir @ p \<noteq> x"
        using x1 by (auto simp: write_file_def)
      then have "fs2 x = Some DirE"
        using write_file_Inr [OF fs2] x1 by simp
      moreover have "write_files app_dir rest fs2 = (r, fs')"
        using Cons.prems(1) Inr fs2 by (simp add: pc)
      ultimately show ?thesis by (rule Cons.IH [rotated])
    qed
  qed
qed

lemma write_source_tree_app_dir:
  assumes "write_source_tree a files fs = (None, fs')"
  shows "fs' (app_dir_of a) = Some DirE"
proof -
  from assms obtain fs1 where r: "remove_existing (app_dir_of a) fs = Inr fs1"
    by (auto simp: write_source_tree_def Let_def split: sum.splits)
  from assms r obtain fs2 where m: "makedirs (app_dir_of a) fs1 = Inr fs2"
    by (auto simp: write_source_tree_def Let_def split: sum.splits)
  from assms r m have w: "write_files (app_dir_of a) files fs2 = (None, fs')"
    by (simp add: write_source_tree_def Let_def)
  have "fs2 (app_dir_of a) = Some DirE"
    using makedirs_Inr [OF m] by simp
  with w show ?thesis by (rule write_files_keeps_dirs)
qed

lemma write_source_tree_tree:
  assumes w: "write_source_tree a files fs = (None, fs')"
    and prior: "fs (app_dir_of a) \<noteq> None"
  shows "fs' (app_dir_of a @ q) = mapping_tree files q"
proof -
  from w obtain fs1 where r: "remove_existing (app_dir_of a) fs = Inr fs1"
    by (auto simp: write_source_tree_def Let_def split: sum.splits)
  from w r obtain fs2 where m: "makedirs (app_dir_of a) fs1 = Inr fs2"
    by (auto simp: write_source_tree_def Let_def split: sum.splits)
  from w r m have wf: "write_files (app_dir_of a) files fs2 = (None, fs')"
    by (simp add: write_source_tree_def Let_def)
  have empty: "fs1 (app_dir_of a @ x) = None" for x
    using remove_existing_below [OF r prior, of "app_dir_of a @ x"] by simp
  have "\<forall>x. fs2 (app_dir_of a @ x) = mapping_tree [] x"
    using makedirs_Inr [OF m] empty by (simp add: mapping_tree_def)
  from write_files_tree [OF wf this] show ?thesis by simp
qed

lemma deploy_app_static_stages:
  assumes id: "resolve_app_id uuid d = a"
    and ty: "resolve_app_type d = ''static'' \<or> resolve_app_type d = ''simple_website''"
    and ok: "fst (deploy_app run uuid now d fs) = Inr dep"
  obtains fs1 fs2 where "write_source_tree a (resolve_files d) fs = (None, fs1)"
    and "save_deployment_metadata a (config_of uuid now d) fs1 = Inr fs2"
    and "copy_to_static a fs2 = (None, snd (deploy_app run uuid now d fs))"
    and "dep = config_of uuid now d"
proof -
  obtain r fs1 where w: "write_source_tree a (resolve_files d) fs = (r, fs1)" by force
  from ok w id have r: "r = None"
    by (cases r) (simp_all add: deploy_app_def Let_def)
  from ok w r id obtain fs2 where sv: "save_deployment_metadata a (config_of uuid now d) fs1 = Inr fs2"
    by (cases "save_deployment_metadata a (config_of uuid now d) fs1")
       (simp_all add: deploy_app_def Let_def)
  obtain e fs3 where cp: "copy_to_static a fs2 = (e, fs3)" by force
  from ok w r id sv ty cp have e: "e = None"
    by (cases e) (auto simp: deploy_app_def Let_def)
  from w r id sv ty cp e have fin: "deploy_app run uuid now d fs = (Inr (config_of uuid now d), fs3)"
    by (auto simp: deploy_app_def Let_def)
  show thesis
    using that [of fs1 fs2] w r sv cp e fin ok by simp
qed

lemma copy_to_static_copies:
  assumes "copy_to_static a fs = (None, fs')"
  shows "fs' (static_dir_of a @ q) = fs (app_dir_of a @ q)"
    and "fs' (app_dir_of a @ q) = fs (app_dir_of a @ q)"
proof -
  from assms obtain fs1 where r: "remove_existing (static_dir_of a) fs = Inr fs1"
    by (auto simp: copy_to_static_def Let_def split: sum.splits)
  from assms r have c: "copytree (app_dir_of a) (static_dir_of a) fs1 = Inr fs'"
    by (auto simp: copy_to_static_def Let_def split: sum.splits)
  have same: "fs1 (app_dir_of a @ x) = fs (app_dir_of a @ x)" for x
    using remove_existing_elsewhere [OF r, of "app_dir_of a @ x"] by simp
  show "fs' (static_dir_of a @ q) = fs (app_dir_of a @ q)"
    using copytree_below [OF c, of q] same by simp
  show "fs' (app_dir_of a @ q) = fs (app_dir_of a @ q)"
    using copytree_elsewhere [OF c, of "app_dir_of a @ q"] same by simp
qed

lemma saved_tree:
  assumes sv: "save_deployment_metadata a config fs = Inr fs'"
    and tree: "\<forall>q. fs (app_dir_of a @ q) = mapping_tree files q"
  shows "fs' (app_dir_of a @ q) = deployed_tree files config q"
  using write_file_Inr [OF sv [unfolded save_deployment_metadata_def]] tree
  by (simp add: deployed_tree_def metadata_below)

lemma deploy_app_static_tree:
  assumes id: "resolve_app_id uuid d = a"
    and ty: "resolve_app_type d = ''static'' \<or> resolve_app_type d = ''simple_website''"
    and ok: "fst (deploy_app run uuid now d fs) = Inr dep"
    and prior: "fs (app_dir_of a) \<noteq> None"
  shows "dep = config_of uuid now d"
    and "snd (deploy_app run uuid now d fs) (app_dir_of a @ q) = deployed_tree (resolve_files d) dep q"
    and "snd (deploy_app run uuid now d fs) (static_dir_of a @ q) = deployed_tree (resolve_files d) dep q"
proof -
  from deploy_app_static_stages [OF id ty ok] obtain fs1 fs2
    where w: "write_source_tree a (resolve_files d) fs = (None, fs1)"
      and sv: "save_deployment_metadata a (config_of uuid now d) fs1 = Inr fs2"
      and cp: "copy_to_static a fs2 = (None, snd (deploy_app run uuid now d fs))"
      and dep: "dep = config_of uuid now d"
    by blast
  have t1: "\<forall>x. fs1 (app_dir_of a @ x) = mapping_tree (resolve_files d) x"
    using write_source_tree_tree [OF w prior] by simp
  have t2: "fs2 (app_dir_of a @ x) = deployed_tree (resolve_files d) dep x" for x
    using saved_tree [OF sv t1] dep by simp
  show "dep = config_of uuid now d" by (rule dep)
  show "snd (deploy_app run uuid now d fs) (app_dir_of a @ q) = deployed_tree (resolve_files d) dep q"
    using copy_to_static_copies(2) [OF cp] t2 by simp
  show "snd (deploy_app run uuid now d fs) (static_dir_of a @ q) = deployed_tree (resolve_files d) dep q"
    using copy_to_static_copies(1) [OF cp] t2 by simp
qed

lemma deploy_app_static_app_dir:
  assumes id: "resolve_app_id uuid d = a"
    and ty: "resolve_app_type d = ''static'' \<or> resolve_app_type d = ''simple_website''"
    and ok: "fst (deploy_app run uuid now d fs) = Inr dep"
  shows "snd (deploy_app run uuid now d fs) (app_dir_of a) = Some DirE"
proof -
  from deploy_app_static_stages [OF id ty ok] obtain fs1 fs2
    where w: "write_source_tree a (resolve_files d) fs = (None, fs1)"
      and sv: "save_deployment_metadata a (config_of uuid now d) fs1 = Inr fs2"
      and cp: "copy_to_static a fs2 = (None, snd (deploy_app run uuid now d fs))"
    by blast
  have "fs1 (app_dir_of a) = Some DirE" using w by (rule write_source_tree_app_dir)
  then have "fs2 (app_dir_of a) = Some DirE"
    using write_file_Inr [OF sv [unfolded save_deployment_metadata_def]]
    by (simp add: metadata_path_def app_dir_of_def)
  then show ?thesis
    using copy_to_static_copies(2) [OF cp, of "[]"] by simp
qed

lemma makedirs_no_file_on_way:
  "makedirs p fs = Inr fs' \<Longrightarrow> is_file (fs x) \<Longrightarrow> fs' x = fs x"
  by (auto simp: makedirs_def list_ex_iff split: if_splits)

lemma write_files_keeps_files:
  "write_files app_dir files fs = (None, fs') \<Longrightarrow> is_file (fs x) \<Longrightarrow> is_file (fs' x)"
proof (induction files arbitrary: fs)
  case Nil
  then show ?case by simp
next
  case (Cons pc rest)
  obtain p c where pc: "pc = (p, c)" by (cases pc)
  from Cons.prems(1) obtain fs1 where mk: "makedirs (app_dir @ butlast p) fs = Inr fs1"
    by (auto simp: pc split: sum.splits)
  from Cons.prems(1) mk obtain fs2 where wr: "write_file (app_dir @ p) (Text c) fs1 = Inr fs2"
    by (auto simp: pc split: sum.splits)
  from Cons.prems(1) mk wr have rest: "write_files app_dir rest fs2 = (None, fs')"
    by (simp add: pc)
  have "is_file (fs1 x)"
    using makedirs_no_file_on_way [OF mk Cons.prems(2)] Cons.prems(2) by simp
  then have "is_file (fs2 x)"
    using write_file_Inr [OF wr] by simp
  with rest show ?case by (rule Cons.IH)
qed

lemma write_files_writes:
  "write_files app_dir files fs = (None, fs') \<Longrightarrow> (p, c) \<in> set files \<Longrightarrow> is_file (fs' (app_dir @ p))"
proof (induction files arbitrary: fs)
  case Nil
  then show ?case by simp
next
  case (Cons pc rest)
  obtain p0 c0 where pc: "pc = (p0, c0)" by (cases pc)
  from Cons.prems(1) obtain fs1 where mk: "makedirs (app_dir @ butlast p0) fs = Inr fs1"
    by (auto simp: pc split: sum.splits)
  from Cons.prems(1) mk obtain fs2 where wr: "write_file (app_dir @ p0) (Text c0) fs1 = Inr fs2"
    by (auto simp: pc split: sum.splits)
  from Cons.prems(1) mk wr have rest: "write_files app_dir rest fs2 = (None, fs')"
    by (simp add: pc)
  show ?case
  proof (cases "(p, c) \<in> set rest")
    case True
    with rest show ?thesis by (rule Cons.IH)
  next
    case False
    with Cons.prems(2) have "p = p0" by (simp add: pc)
    then have "is_file (fs2 (app_dir @ p))"
      using write_file_Inr [OF wr] by simp
    with rest show ?thesis by (rule write_files_keeps_files)
  qed
qed

lemma write_source_tree_writes:
  assumes "write_source_tree a files fs = (None, fs')" "(p, c) \<in> set files"
  shows "is_file (fs' (app_dir_of a @ p))"
proof -
  from assms(1) obtain fs2 where "write_files (app_dir_of a) files fs2 = (None, fs')"
    by (auto simp: write_source_tree_def Let_def split: sum.splits)
  then show ?thesis using assms(2) by (rule write_files_writes)
qed

lemma mapping_tree_file:
  "is_file (mapping_tree files p) \<Longrightarrow>
     mapping_tree files p = map_option (\<lambda>c. FileE (Text c)) (map_of (rev files) p)"
  by (auto simp: mapping_tree_def split: if_splits)

lemma mapping_tree_file_key:
  "mapping_tree files q = Some (FileE c) \<Longrightarrow> q \<in> fst ` set files"
  by (force simp: mapping_tree_def split: if_splits dest!: map_of_SomeD)

text \<open>
  Claim C6, as the code has it. When the same application is deployed twice as a static
  application and both deploys succeed, the second deploy's answer is its own record,
  which lists the keys of the second mapping and is what \<^verbatim>\<open>get_deployment_info\<close>
  returns; the source tree and the published tree are both exactly the tree of the
  second mapping together with the record file \<^verbatim>\<open>deployment.json\<close> (which stands in
  place of a mapping entry of that name). Every key of the second mapping is a regular
  file holding the text mapped to it, and every regular file of the tree is the record
  file or a key of the second mapping: no file of the first deploy remains.
\<close>

theorem second_deploy_replaces_first:
  assumes id1: "resolve_app_id uuid d1 = a" and id2: "resolve_app_id uuid d2 = a"
    and ty1: "resolve_app_type d1 = ''static'' \<or> resolve_app_type d1 = ''simple_website''"
    and ty2: "resolve_app_type d2 = ''static'' \<or> resolve_app_type d2 = ''simple_website''"
    and ok1: "fst (deploy_app run uuid t1 d1 fs) = Inr dep1"
    and ok2: "fst (deploy_app run uuid t2 d2 (snd (deploy_app run uuid t1 d1 fs))) = Inr dep2"
  shows "dep2 = config_of uuid t2 d2
     \<and> d_files dep2 = map fst (resolve_files d2)
     \<and> get_deployment_info a (snd (deploy_app run uuid t2 d2 (snd (deploy_app run uuid t1 d1 fs))))
         = Some dep2
     \<and> (\<forall>q. snd (deploy_app run uuid t2 d2 (snd (deploy_app run uuid t1 d1 fs))) (app_dir_of a @ q)
            = deployed_tree (resolve_files d2) dep2 q)
     \<and> (\<forall>q. snd (deploy_app run uuid t2 d2 (snd (deploy_app run uuid t1 d1 fs))) (static_dir_of a @ q)
            = deployed_tree (resolve_files d2) dep2 q)
     \<and> (\<forall>p c. (p, c) \<in> set (resolve_files d2) \<and> p \<noteq> [''deployment.json''] \<longrightarrow>
            snd (deploy_app run uuid t2 d2 (snd (deploy_app run uuid t1 d1 fs))) (app_dir_of a @ p)
              = map_option (\<lambda>c. FileE (Text c)) (map_of (rev (resolve_files d2)) p))
     \<and> (\<forall>q c. snd (deploy_app run uuid t2 d2 (snd (deploy_app run uuid t1 d1 fs))) (app_dir_of a @ q)
              = Some (FileE c) \<longrightarrow>
            q = [''deployment.json''] \<or> q \<in> fst ` set (resolve_files d2))"
proof -
  let ?fs1 = "snd (deploy_app run uuid t1 d1 fs)"
  let ?fin = "snd (deploy_app run uuid t2 d2 ?fs1)"
  have prior: "?fs1 (app_dir_of a) \<noteq> None"
    using deploy_app_static_app_dir [OF id1 ty1 ok1] by simp
  note tree = deploy_app_static_tree [OF id2 ty2 ok2 prior]
  from deploy_app_static_stages [OF id2 ty2 ok2] obtain fs1 fs2
    where w: "write_source_tree a (resolve_files d2) ?fs1 = (None, fs1)"
      and sv: "save_deployment_metadata a (config_of uuid t2 d2) fs1 = Inr fs2"
      and cp: "copy_to_static a fs2 = (None, ?fin)"
    by blast
  have files: "d_files dep2 = map fst (resolve_files d2)"
    by (simp add: tree(1) config_of_def deployment_config_def)
  have rec: "get_deployment_info a ?fin = Some dep2"
    using tree(2) [of "[''deployment.json'']"]
    by (simp add: get_deployment_info_def metadata_below deployed_tree_def)
  have key: "?fin (app_dir_of a @ p) = map_option (\<lambda>c. FileE (Text c)) (map_of (rev (resolve_files d2)) p)"
    if "(p, c) \<in> set (resolve_files d2)" "p \<noteq> [''deployment.json'']" for p c
  proof -
    have "is_file (fs1 (app_dir_of a @ p))"
      using w that(1) by (rule write_source_tree_writes)
    moreover have "fs1 (app_dir_of a @ p) = mapping_tree (resolve_files d2) p"
      using write_source_tree_tree [OF w prior] .
    ultimately have "mapping_tree (resolve_files d2) p
        = map_option (\<lambda>c. FileE (Text c)) (map_of (rev (resolve_files d2)) p)"
      using mapping_tree_file by simp
    with tree(2) [of p] that(2) show ?thesis by (simp add: deployed_tree_def)
  qed
  have only: "q = [''deployment.json''] \<or> q \<in> fst ` set (resolve_files d2)"
    if "?fin (app_dir_of a @ q) = Some (FileE c)" for q c
    using that tree(2) [of q] mapping_tree_file_key [of "resolve_files d2" q c]
    by (auto simp: deployed_tree_def split: if_splits)
  from tree files rec key only show ?thesis by blast
qed

theorem second_deploy_replaces_first_witness:
  "snd (deploy_app quiet_runner ''u'' ''t2'' second_static
          (snd (deploy_app quiet_runner ''u'' ''t1'' hello_static initial_fs)))
        [''static'', ''x1'', ''index.html''] = None
   \<and> snd (deploy_app quiet_runner ''u'' ''t2'' second_static
          (snd (deploy_app quiet_runner ''u'' ''t1'' hello_static initial_fs)))
        [''static'', ''x1'', ''home.html''] = Some (FileE (Text ''<h1>Home</h1>''))
   \<and> snd (deploy_app quiet_runner ''u'' ''t2'' second_static
          (snd (deploy_app quiet_runner ''u'' ''t1'' hello_static initial_fs)))
        [''apps'', ''x1'', ''css'', ''site.css''] = Some (FileE (Text ''h1 {}''))
   \<and> get_deployment_info ''x1''
        (snd (deploy_app quiet_runner ''u'' ''t2'' second_static
          (snd (deploy_app quiet_runner ''u'' ''t1'' hello_static initial_fs))))
       = Some (config_of ''u'' ''t2'' second_static)"
proof -
  have id1: "resolve_app_id ''u'' hello_static = ''x1''" by (simp add: evaluate)
  have id2: "resolve_app_id ''u'' second_static = ''x1''" by (simp add: evaluate)
  have ty1: "resolve_app_type hello_static = ''static'' \<or> resolve_app_type hello_static = ''simple_website''"
    by (simp add: evaluate)
  have ty2: "resolve_app_type second_static = ''static'' \<or> resolve_app_type second_static = ''simple_website''"
    by (simp add: evaluate)
  have ok1: "fst (deploy_app quiet_runner ''u'' ''t1'' hello_static initial_fs)
      = Inr (config_of ''u'' ''t1'' hello_static)"
    by (simp add: evaluate)
  have ok2: "fst (deploy_app quiet_runner ''u'' ''t2'' second_static
          (snd (deploy_app quiet_runner ''u'' ''t1'' hello_static initial_fs)))
      = Inr (config_of ''u'' ''t2'' second_static)"
    by (simp add: evaluate)
  have files: "resolve_files second_static
      = [([''home.html''], ''<h1>Home</h1>''), ([''css'', ''site.css''], ''h1 {}'')]"
    by (simp add: evaluate)
  note c6 = second_deploy_replaces_first [OF id1 id2 ty1 ty2 ok1 ok2]
  have a: "snd (deploy_app quiet_runner ''u'' ''t2'' second_static
          (snd (deploy_app quiet_runner ''u'' ''t1'' hello_static initial_fs)))
        (static_dir_of ''x1'' @ [''index.html'']) = None"
    using c6 by (simp add: files deployed_tree_def mapping_tree_def)
  have b: "snd (deploy_app quiet_runner ''u'' ''t2'' second_static
          (snd (deploy_app quiet_runner ''u'' ''t1'' hello_static initial_fs)))
        (static_dir_of ''x1'' @ [''home.html'']) = Some (FileE (Text ''<h1>Home</h1>''))"
    using c6 by (simp add: files deployed_tree_def mapping_tree_def)
  have c: "snd (deploy_app quiet_runner ''u'' ''t2'' second_static
          (snd (deploy_app quiet_runner ''u'' ''t1'' hello_static initial_fs)))
        (app_dir_of ''x1'' @ [''css'', ''site.css'']) = Some (FileE (Text ''h1 {}''))"
    using c6 by (simp add: files deployed_tree_def mapping_tree_def)
  from a b c c6 show ?thesis
    by (simp add: static_dir_of_def app_dir_of_def)
qed

text \<open>
  The claim as the specification words it fails twice over. After two successful
  deploys the trees do not match the second mapping exactly: the published tree (a copy
  of the source tree) also holds the record file, which is no key of the mapping. And a
  second deploy that fails while writing its files (here \<^verbatim>\<open>a/b\<close> after the file \<^verbatim>\<open>a\<close>)
  never reaches the publication, so the first deploy's published file remains.
\<close>

theorem published_tree_holds_record:
  "snd (deploy_app quiet_runner ''u'' ''t2'' second_static
          (snd (deploy_app quiet_runner ''u'' ''t1'' hello_static initial_fs)))
        [''static'', ''x1'', ''deployment.json'']
     = Some (FileE (Meta (config_of ''u'' ''t2'' second_static)))
   \<and> [''deployment.json''] \<notin> fst ` set (resolve_files second_static)
   \<and> fst (deploy_app quiet_runner ''u'' ''t2'' conflicting_static
          (snd (deploy_app quiet_runner ''u'' ''t1'' hello_static initial_fs)))
     = Inl (Raised (FileExistsError [''apps'', ''x1'', ''a'']))
   \<and> snd (deploy_app quiet_runner ''u'' ''t2'' conflicting_static
          (snd (deploy_app quiet_runner ''u'' ''t1'' hello_static initial_fs)))
        [''static'', ''x1'', ''index.html'']
     = Some (FileE (Text ''<h1>Hi</h1>''))"
  by (simp add: evaluate)

section \<open>Update: the backup comes first\<close>

lemma prefix_of_extension:
  "prefix x (ad @ z) \<Longrightarrow> \<not> prefix x ad \<Longrightarrow> prefix ad x"
  by (auto simp: prefix_append)

lemma write_files_elsewhere:
  "write_files ad files fs = (r, fs') \<Longrightarrow> \<not> prefix ad x \<Longrightarrow> \<not> prefix x ad \<Longrightarrow> fs' x = fs x"
proof (induction files arbitrary: fs)
  case Nil
  then show ?case by simp
next
  case (Cons pc rest)
  obtain p c where pc: "pc = (p, c)" by (cases pc)
  show ?case
  proof (cases "makedirs (ad @ butlast p) fs")
    case (Inl e)
    with Cons.prems show ?thesis by (simp add: pc)
  next
    case (Inr fs1)
    have x1: "fs1 x = fs x"
      using makedirs_Inr [OF Inr] Cons.prems(2,3) prefix_of_extension [of x ad "butlast p"]
      by auto
    show ?thesis
    proof (cases "write_file (ad @ p) (Text c) fs1")
      case (Inl e)
      with Cons.prems Inr x1 show ?thesis by (simp add: pc)
    next
      case fs2: (Inr fs2)
      have "ad @ p \<noteq> x" using Cons.prems(2) by auto
      then have x2: "fs2 x = fs x"
        using write_file_Inr [OF fs2] x1 by simp
      have "write_files ad rest fs2 = (r, fs')"
        using Cons.prems(1) Inr fs2 by (simp add: pc)
      from Cons.IH [OF this Cons.prems(2,3)] x2 show ?thesis by simp
    qed
  qed
qed

lemma write_source_tree_elsewhere:
  assumes "\<not> prefix (app_dir_of a) x" "\<not> prefix x (app_dir_of a)"
  shows "snd (write_source_tree a files fs) x = fs x"
proof (cases "remove_existing (app_dir_of a) fs")
  case (Inl e)
  then show ?thesis by (simp add: write_source_tree_def)
next
  case (Inr fs1)
  have 1: "fs1 x = fs x" using remove_existing_elsewhere [OF Inr assms(1)] .
  show ?thesis
  proof (cases "makedirs (app_dir_of a) fs1")
    case (Inl e)
    with Inr 1 show ?thesis by (simp add: write_source_tree_def)
  next
    case m: (Inr fs2)
    have 2: "fs2 x = fs x" using makedirs_Inr [OF m] assms(2) 1 by simp
    obtain r fs3 where w: "write_files (app_dir_of a) files fs2 = (r, fs3)" by force
    from write_files_elsewhere [OF w assms] 2 Inr m w show ?thesis
      by (simp add: write_source_tree_def)
  qed
qed

lemma save_deployment_metadata_elsewhere:
  "save_deployment_metadata a config fs = Inr fs' \<Longrightarrow> \<not> prefix (app_dir_of a) x \<Longrightarrow> fs' x = fs x"
  by (auto simp: save_deployment_metadata_def metadata_below dest!: write_file_Inr)

lemma deploy_app_elsewhere:
  assumes id: "resolve_app_id uuid d = a"
    and frame: "\<forall>c g. snd (run c g) x = g x"
    and x: "\<not> prefix (app_dir_of a) x" "\<not> prefix x (app_dir_of a)"
      "\<not> prefix (static_dir_of a) x" "\<not> prefix x (static_dir_of a)"
  shows "snd (deploy_app run uuid now d fs) x = fs x"
proof -
  obtain r fs1 where w: "write_source_tree a (resolve_files d) fs = (r, fs1)" by force
  have 1: "fs1 x = fs x" using write_source_tree_elsewhere [OF x(1,2), of "resolve_files d" fs] w by simp
  show ?thesis
  proof (cases r)
    case (Some e)
    with w 1 id show ?thesis by (simp add: deploy_app_def Let_def)
  next
    case None
    show ?thesis
    proof (cases "save_deployment_metadata a (config_of uuid now d) fs1")
      case (Inl e)
      with w None 1 id show ?thesis by (simp add: deploy_app_def Let_def)
    next
      case (Inr fs2)
      have 2: "fs2 x = fs x" using save_deployment_metadata_elsewhere [OF Inr x(1)] 1 by simp
      have 3: "snd (copy_to_static a fs2) x = fs x"
        using copy_to_static_elsewhere [OF x(3,4)] 2 by simp
      have 4: "snd (build_react_app run (app_dir_of a) a fs2) x = fs x"
        using build_react_app_elsewhere [OF frame x(3,4)] 2 by simp
      from w None Inr id 2 3 4 show ?thesis
        by (auto simp: deploy_app_def Let_def split: prod.splits option.splits sum.splits)
    qed
  qed
qed

lemma backups_apart:
  assumes "prefix [''backups''] x"
  shows "\<not> prefix (app_dir_of a) x" "\<not> prefix x (app_dir_of a)"
    "\<not> prefix (static_dir_of a) x" "\<not> prefix x (static_dir_of a)"
proof -
  from assms obtain xs where x: "x = ''backups'' # xs" by (cases x) simp_all
  show "\<not> prefix (app_dir_of a) x" "\<not> prefix x (app_dir_of a)"
    "\<not> prefix (static_dir_of a) x" "\<not> prefix x (static_dir_of a)"
    by (simp_all add: x app_dir_of_def static_dir_of_def)
qed

lemma backup_deployment_success:
  assumes "fst (backup_deployment stamp now a fs) = Inr b"
  shows "b = \<lparr>backup_path = [''backups'', a @ ''_backup_'' @ stamp],
              backup_filename = a @ ''_backup_'' @ stamp, created_at = now\<rparr>"
    and "copytree (app_dir_of a) [''backups'', a @ ''_backup_'' @ stamp] fs
           = Inr (snd (backup_deployment stamp now a fs))"
  using assms by (auto simp: backup_deployment_def Let_def split: if_splits sum.splits)

text \<open>
  Claim C4, as the code has it. For an application with a deployment record, when the
  backup step of \<^verbatim>\<open>update_deployment\<close> succeeds, the update creates one snapshot: it
  is at a path that did not exist before, under \<^verbatim>\<open>backups\<close> and named after the
  application and the clock; right after the backup its content is the source tree as it
  was before the update, and nothing outside the snapshot and its ancestors has been
  written, so the source tree, the published tree and the record are still the old
  ones; the deploy of the new content and the rewriting of the record run after that,
  on the state the backup left. At the end of the update the snapshot still equals the
  source tree from before the update, and the snapshots under \<^verbatim>\<open>backups\<close> are the old
  ones and this one, provided the build tool does not write under \<^verbatim>\<open>backups\<close>.
\<close>

theorem update_backs_up_first:
  assumes rec: "get_deployment_info a fs = Some r"
    and bk: "fst (backup_deployment stamp tb a fs) = Inr b"
  shows "backup_path b = [''backups'', backup_filename b]
     \<and> backup_filename b = a @ ''_backup_'' @ stamp
     \<and> fs (backup_path b) = None
     \<and> (\<forall>q. snd (backup_deployment stamp tb a fs) (backup_path b @ q) = fs (app_dir_of a @ q))
     \<and> (\<forall>q. \<not> prefix (backup_path b) q \<and> \<not> prefix q (backup_path b) \<longrightarrow>
            snd (backup_deployment stamp tb a fs) q = fs q)
     \<and> update_deployment run uuid stamp tb td tu a d fs =
         (case deploy_app run uuid td (d\<lparr>ad_app_id := Some a\<rparr>) (snd (backup_deployment stamp tb a fs)) of
            (Inl f, fs2) \<Rightarrow> (Inl f, fs2)
          | (Inr dep, fs2) \<Rightarrow>
              (case save_deployment_metadata a
                      (dep\<lparr>d_updated_at := Some tu, d_backup_created := Some (backup_path b)\<rparr>) fs2 of
                 Inl e \<Rightarrow> (Inl (Raised e), fs2)
               | Inr fs3 \<Rightarrow>
                   (Inr (dep\<lparr>d_updated_at := Some tu, d_backup_created := Some (backup_path b)\<rparr>), fs3)))
     \<and> ((\<forall>c g q. prefix [''backups''] q \<longrightarrow> snd (run c g) q = g q) \<longrightarrow>
          (\<forall>q. snd (update_deployment run uuid stamp tb td tu a d fs) (backup_path b @ q)
                = fs (app_dir_of a @ q))
        \<and> (\<forall>n. snd (update_deployment run uuid stamp tb td tu a d fs) [''backups'', n] \<noteq> None
                \<longleftrightarrow> fs [''backups'', n] \<noteq> None \<or> n = backup_filename b))"
proof -
  obtain fs1 where bkp: "backup_deployment stamp tb a fs = (Inr b, fs1)"
    using bk by (cases "backup_deployment stamp tb a fs") simp
  have e: "snd (backup_deployment stamp tb a fs) = fs1"
    by (simp add: bkp)
  let ?d = "d\<lparr>ad_app_id := Some a\<rparr>"
  note b = backup_deployment_success [OF bk]
  have bp: "backup_path b = [''backups'', backup_filename b]"
    and bf: "backup_filename b = a @ ''_backup_'' @ stamp"
    by (simp_all add: b(1))
  have cp: "copytree (app_dir_of a) (backup_path b) fs = Inr fs1"
    using b(2) by (simp add: b(1) e)
  have new: "fs (backup_path b) = None"
    using cp by (auto simp: copytree_def split: option.splits entry.splits if_splits)
  have src: "fs (app_dir_of a) = Some DirE"
    using cp by (auto simp: copytree_def split: option.splits entry.splits if_splits)
  have content: "fs1 (backup_path b @ q) = fs (app_dir_of a @ q)" for q
    using cp by (rule copytree_below)
  have untouched: "fs1 q = fs q" if "\<not> prefix (backup_path b) q" "\<not> prefix q (backup_path b)" for q
    using copytree_elsewhere [OF cp that] .
  have upd: "update_deployment run uuid stamp tb td tu a d fs =
         (case deploy_app run uuid td ?d fs1 of
            (Inl f, fs2) \<Rightarrow> (Inl f, fs2)
          | (Inr dep, fs2) \<Rightarrow>
              (case save_deployment_metadata a
                      (dep\<lparr>d_updated_at := Some tu, d_backup_created := Some (backup_path b)\<rparr>) fs2 of
                 Inl e \<Rightarrow> (Inl (Raised e), fs2)
               | Inr fs3 \<Rightarrow>
                   (Inr (dep\<lparr>d_updated_at := Some tu, d_backup_created := Some (backup_path b)\<rparr>), fs3)))"
    by (simp add: update_deployment_def rec bkp Let_def split: prod.splits sum.splits)
  have keep: "snd (update_deployment run uuid stamp tb td tu a d fs) x = fs1 x"
    if x: "prefix [''backups''] x"
      and frame: "\<forall>c g q. prefix [''backups''] q \<longrightarrow> snd (run c g) q = g q" for x
  proof -
    obtain a' where id: "resolve_app_id uuid ?d = a'" by simp
    have fr: "\<forall>c g. snd (run c g) x = g x" using frame x by blast
    have dp: "snd (deploy_app run uuid td ?d fs1) x = fs1 x"
      using deploy_app_elsewhere [OF id fr backups_apart [OF x]] .
    have sv: "save_deployment_metadata a m fs2 = Inr fs3 \<Longrightarrow> fs3 x = fs2 x" for m fs2 fs3
      using save_deployment_metadata_elsewhere [of a m fs2 fs3 x] backups_apart(1) [OF x] by simp
    obtain res fs2 where dpl: "deploy_app run uuid td ?d fs1 = (res, fs2)" by force
    from dp dpl have fs2: "fs2 x = fs1 x" by simp
    show ?thesis
    proof (cases res)
      case (Inl f)
      with dpl fs2 show ?thesis by (simp add: upd)
    next
      case (Inr dep)
      show ?thesis
      proof (cases "save_deployment_metadata a
          (dep\<lparr>d_updated_at := Some tu, d_backup_created := Some (backup_path b)\<rparr>) fs2")
        case (Inl e)
        with dpl Inr fs2 show ?thesis by (simp add: upd)
      next
        case fs3: (Inr fs3)
        with dpl Inr fs2 sv [OF fs3] show ?thesis by (simp add: upd)
      qed
    qed
  qed
  have fin_content: "snd (update_deployment run uuid stamp tb td tu a d fs) (backup_path b @ q)
      = fs (app_dir_of a @ q)"
    if "\<forall>c g q. prefix [''backups''] q \<longrightarrow> snd (run c g) q = g q" for q
    using keep [of "backup_path b @ q"] that content [of q] by (simp add: bp)
  have names1: "fs1 [''backups'', n] \<noteq> None \<longleftrightarrow> fs [''backups'', n] \<noteq> None \<or> n = backup_filename b" for n
  proof (cases "n = backup_filename b")
    case True
    then show ?thesis using content [of "[]"] src by (simp add: bp)
  next
    case False
    then show ?thesis using untouched [of "[''backups'', n]"] by (simp add: bp)
  qed
  have names: "snd (update_deployment run uuid stamp tb td tu a d fs) [''backups'', n] \<noteq> None
      \<longleftrightarrow> fs [''backups'', n] \<noteq> None \<or> n = backup_filename b"
    if "\<forall>c g q. prefix [''backups''] q \<longrightarrow> snd (run c g) q = g q" for n
    using keep [of "[''backups'', n]"] that names1 [of n] by simp
  show ?thesis
    unfolding e
    using bp bf new content untouched upd fin_content names by blast
qed

theorem update_backs_up_first_witness:
  "fst (backup_deployment ''20260101_000000'' ''tb'' ''x1''
          (snd (deploy_app quiet_runner ''u'' ''t1'' hello_static initial_fs)))
     = Inr \<lparr>backup_path = [''backups'', ''x1_backup_20260101_000000''],
            backup_filename = ''x1_backup_20260101_000000'', created_at = ''tb''\<rparr>
   \<and> snd (update_deployment quiet_runner ''u'' ''20260101_000000'' ''tb'' ''td'' ''tu'' ''x1''
          second_static (snd (deploy_app quiet_runner ''u'' ''t1'' hello_static initial_fs)))
        [''backups'', ''x1_backup_20260101_000000'', ''index.html'']
     = Some (FileE (Text ''<h1>Hi</h1>''))
   \<and> snd (update_deployment quiet_runner ''u'' ''20260101_000000'' ''tb'' ''td'' ''tu'' ''x1''
          second_static (snd (deploy_app quiet_runner ''u'' ''t1'' hello_static initial_fs)))
        [''backups'', ''x1_backup_20260101_000000''] \<noteq> None"
proof -
  let ?fs = "snd (deploy_app quiet_runner ''u'' ''t1'' hello_static initial_fs)"
  let ?b = "\<lparr>backup_path = [''backups'', ''x1_backup_20260101_000000''],
            backup_filename = ''x1_backup_20260101_000000'', created_at = ''tb''\<rparr>"
  have rec: "get_deployment_info ''x1'' ?fs = Some (config_of ''u'' ''t1'' hello_static)"
    by (simp add: evaluate)
  have bk: "fst (backup_deployment ''20260101_000000'' ''tb'' ''x1'' ?fs) = Inr ?b"
    by (simp add: evaluate)
  have frame: "\<forall>c g q. prefix [''backups''] q \<longrightarrow> snd (quiet_runner c g) q = g q"
    by (simp add: quiet_runner_def)
  have old: "?fs (app_dir_of ''x1'' @ [''index.html'']) = Some (FileE (Text ''<h1>Hi</h1>''))"
    by (simp add: evaluate)
  note c4 = update_backs_up_first [OF rec bk, of quiet_runner "''u''" "''td''" "''tu''" second_static]
  have content: "\<forall>q. snd (update_deployment quiet_runner ''u'' ''20260101_000000'' ''tb'' ''td'' ''tu''
          ''x1'' second_static ?fs) (backup_path ?b @ q) = ?fs (app_dir_of ''x1'' @ q)"
    using c4 frame by blast
  have names: "\<forall>n. snd (update_deployment quiet_runner ''u'' ''20260101_000000'' ''tb'' ''td'' ''tu''
          ''x1'' second_static ?fs) [''backups'', n] \<noteq> None
        \<longleftrightarrow> ?fs [''backups'', n] \<noteq> None \<or> n = backup_filename ?b"
    using c4 frame by blast
  from content [rule_format, of "[''index.html'']"] names [rule_format, of "''x1_backup_20260101_000000''"]
    bk old
  show ?thesis by simp
qed

text \<open>
  The claim as the specification words it fails when the backup step fails: the
  snapshot's name has the clock's seconds as its last part, so a second update of the
  same application within the same second finds the path taken, \<^verbatim>\<open>copytree\<close> raises,
  and the update ends there without any new snapshot, although the record and the
  source tree exist.
\<close>

theorem second_update_in_same_second_makes_no_snapshot:
  "get_deployment_info ''x1''
      (snd (update_deployment quiet_runner ''u'' ''20260101_000000'' ''tb'' ''td'' ''tu'' ''x1''
         second_static (snd (deploy_app quiet_runner ''u'' ''t1'' hello_static initial_fs))))
     = Some ((config_of ''u'' ''td'' second_static)
          \<lparr>d_updated_at := Some ''tu'',
            d_backup_created := Some [''backups'', ''x1_backup_20260101_000000'']\<rparr>)
   \<and> snd (update_deployment quiet_runner ''u'' ''20260101_000000'' ''tb'' ''td'' ''tu'' ''x1''
         second_static (snd (deploy_app quiet_runner ''u'' ''t1'' hello_static initial_fs)))
        [''apps'', ''x1''] = Some DirE
   \<and> update_deployment quiet_runner ''u'' ''20260101_000000'' ''tb2'' ''td2'' ''tu2'' ''x1''
        hello_static
        (snd (update_deployment quiet_runner ''u'' ''20260101_000000'' ''tb'' ''td'' ''tu'' ''x1''
           second_static (snd (deploy_app quiet_runner ''u'' ''t1'' hello_static initial_fs))))
     = (Inl (Raised (FileExistsError [''backups'', ''x1_backup_20260101_000000''])),
        snd (update_deployment quiet_runner ''u'' ''20260101_000000'' ''tb'' ''td'' ''tu'' ''x1''
           second_static (snd (deploy_app quiet_runner ''u'' ''t1'' hello_static initial_fs))))"
proof -
  let ?fs = "snd (update_deployment quiet_runner ''u'' ''20260101_000000'' ''tb'' ''td'' ''tu'' ''x1''
         second_static (snd (deploy_app quiet_runner ''u'' ''t1'' hello_static initial_fs)))"
  have rec: "get_deployment_info ''x1'' ?fs
      = Some ((config_of ''u'' ''td'' second_static)
          \<lparr>d_updated_at := Some ''tu'',
            d_backup_created := Some [''backups'', ''x1_backup_20260101_000000'']\<rparr>)"
    by (simp add: evaluate)
  have src: "?fs [''apps'', ''x1''] = Some DirE"
    by (simp add: evaluate)
  have fails: "fst (backup_deployment ''20260101_000000'' ''tb2'' ''x1'' ?fs)
      = Inl (Raised (FileExistsError [''backups'', ''x1_backup_20260101_000000'']))"
    by (simp add: evaluate)
  have upd: "update_deployment quiet_runner ''u'' ''20260101_000000'' ''tb2'' ''td2'' ''tu2'' ''x1''
        hello_static ?fs
      = (Inl (Raised (FileExistsError [''backups'', ''x1_backup_20260101_000000''])), ?fs)"
    using rec fails by (rule update_deployment_backup_failure)
  from rec src upd show ?thesis by blast
qed

end
